theory Spec2Isabelle
  imports Main
begin

section \<open>Errors\<close>

text \<open>
  A rejected promise or a thrown value. \<open>Error m\<close> is \<^verbatim>\<open>new Error(m)\<close>;
  \<open>ServiceError name message\<close> is an error object handed back by the AWS SDK or by Node
  (its \<^verbatim>\<open>name\<close> is what \<^verbatim>\<open>checkFileExists\<close> inspects); \<open>Undefined\<close> is the value
  \<^verbatim>\<open>undefined\<close> thrown by \<^verbatim>\<open>throw lastError\<close> when no attempt ever ran.
\<close>

datatype error =
    Error string
  | TypeError string
  | SyntaxError string
  | RangeError string
  | ServiceError string string
  | Undefined

text \<open>Reading \<^verbatim>\<open>error.name\<close> and \<^verbatim>\<open>error.message\<close>; on \<^verbatim>\<open>undefined\<close> the read itself throws.\<close>

fun error_name :: "error \<Rightarrow> string option" where
  "error_name (Error m) = Some ''Error''"
| "error_name (TypeError m) = Some ''TypeError''"
| "error_name (SyntaxError m) = Some ''SyntaxError''"
| "error_name (RangeError m) = Some ''RangeError''"
| "error_name (ServiceError n m) = Some n"
| "error_name Undefined = None"

fun error_message :: "error \<Rightarrow> string option" where
  "error_message (Error m) = Some m"
| "error_message (TypeError m) = Some m"
| "error_message (SyntaxError m) = Some m"
| "error_message (RangeError m) = Some m"
| "error_message (ServiceError n m) = Some m"
| "error_message Undefined = None"

section \<open>Retry with exponential backoff\<close>

text \<open>
  An asynchronous operation is a function from the state of the world to its outcome
  and the new state. The timer (\<^verbatim>\<open>setTimeout\<close>) is the parameter \<open>sleep\<close>.
\<close>

type_synonym ('s, 'a) action = "'s \<Rightarrow> (error + 'a) \<times> 's"

definition CONFIG_MAX_RETRIES :: nat where
  "CONFIG_MAX_RETRIES = 3"

definition CONFIG_RETRY_DELAY :: nat where
  "CONFIG_RETRY_DELAY = 1000"

definition CONFIG_UPLOAD_CONCURRENCY :: nat where
  "CONFIG_UPLOAD_CONCURRENCY = 5"

definition CONFIG_TEMP_DIR_PREFIX :: string where
  "CONFIG_TEMP_DIR_PREFIX = ''hls-''"

text \<open>
  \<^verbatim>\<open>withRetry\<close> of the transcoder (\<^verbatim>\<open>for (let attempt = 1; attempt <= maxRetries; attempt++)\<close>).
  The \<^verbatim>\<open>break\<close> at the last attempt leaves the loop with \<^verbatim>\<open>lastError\<close> set to the error
  just caught, which \<^verbatim>\<open>throw lastError\<close> then raises.
\<close>

function withRetry_loop ::
  "(nat \<Rightarrow> 's \<Rightarrow> 's) \<Rightarrow> ('s, 'a) action \<Rightarrow> nat \<Rightarrow> nat \<Rightarrow> error \<Rightarrow> ('s, 'a) action" where
  "withRetry_loop sleep operation maxRetries attempt lastError s =
     (if attempt \<le> maxRetries then
        (case operation s of
           (Inr v, s') \<Rightarrow> (Inr v, s')
         | (Inl err, s') \<Rightarrow>
             if attempt = maxRetries then (Inl err, s')
             else withRetry_loop sleep operation maxRetries (attempt + 1) err
                    (sleep (min (CONFIG_RETRY_DELAY * 2 ^ (attempt - 1)) 10000) s'))
      else (Inl lastError, s))"
  by pat_completeness auto
termination
  by (relation "measure (\<lambda>(sl, operation, m, a, e, s). m + 1 - a)") auto

definition withRetry :: "(nat \<Rightarrow> 's \<Rightarrow> 's) \<Rightarrow> ('s, 'a) action \<Rightarrow> nat \<Rightarrow> ('s, 'a) action" where
  "withRetry sleep operation maxRetries = withRetry_loop sleep operation maxRetries 1 Undefined"

text \<open>
  \<^verbatim>\<open>retryWithBackoff\<close> of the consumer (\<^verbatim>\<open>for (let i = 0; i < retries; i++)\<close>), ending in
  \<^verbatim>\<open>throw new Error('Retry failed')\<close> when the loop runs out without an attempt.
\<close>

definition MAX_RETRIES :: nat where
  "MAX_RETRIES = 3"

function retryWithBackoff_loop ::
  "(nat \<Rightarrow> 's \<Rightarrow> 's) \<Rightarrow> ('s, 'a) action \<Rightarrow> nat \<Rightarrow> nat \<Rightarrow> ('s, 'a) action" where
  "retryWithBackoff_loop sleep operation retries i s =
     (if i < retries then
        (case operation s of
           (Inr v, s') \<Rightarrow> (Inr v, s')
         | (Inl err, s') \<Rightarrow>
             if i = retries - 1 then (Inl err, s')
             else retryWithBackoff_loop sleep operation retries (i + 1)
                    (sleep (min (1000 * 2 ^ i) 5000) s'))
      else (Inl (Error ''Retry failed''), s))"
  by pat_completeness auto
termination
  by (relation "measure (\<lambda>(sl, operation, n, i, s). n - i)") auto

definition retryWithBackoff :: "(nat \<Rightarrow> 's \<Rightarrow> 's) \<Rightarrow> ('s, 'a) action \<Rightarrow> nat \<Rightarrow> ('s, 'a) action" where
  "retryWithBackoff sleep operation retries = retryWithBackoff_loop sleep operation retries 0"

text \<open>
  Observation of a retried operation: the operation and the timer are wrapped so that
  every attempt (with its outcome) and every delay is appended to a log carried beside
  the operation's own state.
\<close>

datatype 'a obs = Attempt "error + 'a" | Delay nat

definition observed :: "('s, 'a) action \<Rightarrow> ('s \<times> 'a obs list, 'a) action" where
  "observed operation = (\<lambda>(s, lg). case operation s of (r, s') \<Rightarrow> (r, (s', lg @ [Attempt r])))"

definition observed_sleep :: "nat \<Rightarrow> 's \<times> 'a obs list \<Rightarrow> 's \<times> 'a obs list" where
  "observed_sleep d = (\<lambda>(s, lg). (s, lg @ [Delay d]))"

fun obs_delay :: "'a obs \<Rightarrow> nat option" where
  "obs_delay (Attempt r) = None"
| "obs_delay (Delay d) = Some d"

text \<open>
  The schedule of a run of \<open>n\<close> failed attempts: attempt 1, delay, attempt 2, delay, ...,
  attempt \<open>n\<close>; the delay after attempt \<open>k\<close> is \<open>min (base * 2 ^ (k - 1)) ceiling\<close>.
  \<open>None\<close> stands for an attempt.
\<close>

definition backoff_schedule :: "nat \<Rightarrow> nat \<Rightarrow> nat \<Rightarrow> nat option list" where
  "backoff_schedule base ceiling n =
     (if n = 0 then []
      else concat (map (\<lambda>k. [None, Some (min (base * 2 ^ (k - 1)) ceiling)]) [1..<n]) @ [None])"

definition always_fails :: "('s, 'a) action \<Rightarrow> bool" where
  "always_fails operation = (\<forall>s. \<exists>e s'. operation s = (Inl e, s'))"

section \<open>Strings, numbers and paths of the platform\<close>

text \<open>Decimal rendering of a number in a template literal (integers below \<open>10 ^ 21\<close>).\<close>

definition digit_char :: "nat \<Rightarrow> char" where
  "digit_char d = ''0123456789'' ! d"

fun show_nat :: "nat \<Rightarrow> string" where
  "show_nat n = (if n < 10 then [digit_char n] else show_nat (n div 10) @ [digit_char (n mod 10)])"

definition show_int :: "int \<Rightarrow> string" where
  "show_int i = (if i < 0 then CHR ''-'' # show_nat (nat (- i)) else show_nat (nat i))"

text \<open>A number that may be \<^verbatim>\<open>NaN\<close>, as \<^verbatim>\<open>parseInt\<close> returns it.\<close>

definition show_number :: "int option \<Rightarrow> string" where
  "show_number v = (case v of None \<Rightarrow> ''NaN'' | Some i \<Rightarrow> show_int i)"

text \<open>
  \<^verbatim>\<open>parseInt(s)\<close> with no radix: leading white space, an optional sign, an optional
  \<^verbatim>\<open>0x\<close> prefix, then the longest run of digits; \<^verbatim>\<open>NaN\<close> when that run is empty.
\<close>

definition is_space :: "char \<Rightarrow> bool" where
  "is_space c = (c \<in> set [CHR '' '', CHR 0x09, CHR 0x0A, CHR 0x0B, CHR 0x0C, CHR 0x0D])"

definition digit_value :: "char \<Rightarrow> nat option" where
  "digit_value c = map_of (zip ''0123456789abcdefABCDEF''
     [0, 1, 2, 3, 4, 5, 6, 7, 8, 9, 10, 11, 12, 13, 14, 15, 10, 11, 12, 13, 14, 15]) c"

definition radix_digit :: "nat \<Rightarrow> char \<Rightarrow> bool" where
  "radix_digit radix c = (case digit_value c of None \<Rightarrow> False | Some d \<Rightarrow> d < radix)"

definition digits_value :: "nat \<Rightarrow> string \<Rightarrow> nat" where
  "digits_value radix ds = foldl (\<lambda>acc c. acc * radix + (case digit_value c of None \<Rightarrow> 0 | Some d \<Rightarrow> d)) 0 ds"

definition parseInt :: "string \<Rightarrow> int option" where
  "parseInt str =
     (let s = dropWhile is_space str;
          neg = (s \<noteq> [] \<and> hd s = CHR ''-'');
          s1 = (if s \<noteq> [] \<and> (hd s = CHR ''-'' \<or> hd s = CHR ''+'') then tl s else s);
          hex = (take 2 s1 = ''0x'' \<or> take 2 s1 = ''0X'');
          radix = (if hex then 16 else 10);
          s2 = (if hex then drop 2 s1 else s1);
          ds = takeWhile (radix_digit radix) s2
      in if ds = [] then None
         else Some ((if neg then - 1 else 1) * int (digits_value radix ds)))"

text \<open>\<^verbatim>\<open>String.prototype.split\<close> with a one-character separator.\<close>

fun split_on :: "char \<Rightarrow> string \<Rightarrow> string list" where
  "split_on sep [] = [[]]"
| "split_on sep (c # cs) =
     (if c = sep then [] # split_on sep cs
      else (case split_on sep cs of [] \<Rightarrow> [[c]] | p # ps \<Rightarrow> (c # p) # ps))"

text \<open>
  Node's POSIX \<^verbatim>\<open>path.basename\<close> (trailing separators dropped, then the part after the
  last separator) and \<^verbatim>\<open>path.parse(p).name\<close> (the base name without its extension: the
  extension starts at the last dot, unless that dot is the first character of the base
  name or the base name is \<^verbatim>\<open>..\<close>).
\<close>

definition path_basename :: "string \<Rightarrow> string" where
  "path_basename p =
     rev (takeWhile (\<lambda>c. c \<noteq> CHR ''/'') (dropWhile (\<lambda>c. c = CHR ''/'') (rev p)))"

definition path_parse_name :: "string \<Rightarrow> string" where
  "path_parse_name p =
     (let base = path_basename p;
          startDot = length base - Suc (length (takeWhile (\<lambda>c. c \<noteq> CHR ''.'') (rev base)))
      in if CHR ''.'' \<notin> set base \<or> startDot = 0 \<or> base = ''..'' then base
         else take startDot base)"

text \<open>\<^verbatim>\<open>undefined\<close> inside a template literal.\<close>

definition js_str :: "string option \<Rightarrow> string" where
  "js_str v = (case v of None \<Rightarrow> ''undefined'' | Some s \<Rightarrow> s)"

section \<open>Regular expressions\<close>

text \<open>
  The two regular expression literals of the source use only literals, character
  classes, alternation, \<^verbatim>\<open>+\<close> and the anchors \<^verbatim>\<open>^\<close> and \<^verbatim>\<open>$\<close> (no multiline flag), so
  \<^verbatim>\<open>test\<close> and \<^verbatim>\<open>match\<close> succeed exactly when the whole string is in the expression's
  language. The matcher works by derivatives.
\<close>

datatype rx = Empty | Eps | Sym "char \<Rightarrow> bool" | Alt rx rx | Seq rx rx | Star rx

fun nullable :: "rx \<Rightarrow> bool" where
  "nullable Empty = False"
| "nullable Eps = True"
| "nullable (Sym P) = False"
| "nullable (Alt r s) = (nullable r \<or> nullable s)"
| "nullable (Seq r s) = (nullable r \<and> nullable s)"
| "nullable (Star r) = True"

fun deriv :: "char \<Rightarrow> rx \<Rightarrow> rx" where
  "deriv c Empty = Empty"
| "deriv c Eps = Empty"
| "deriv c (Sym P) = (if P c then Eps else Empty)"
| "deriv c (Alt r s) = Alt (deriv c r) (deriv c s)"
| "deriv c (Seq r s) =
     (if nullable r then Alt (Seq (deriv c r) s) (deriv c s) else Seq (deriv c r) s)"
| "deriv c (Star r) = Seq (deriv c r) (Star r)"

fun rx_test :: "rx \<Rightarrow> string \<Rightarrow> bool" where
  "rx_test r [] = nullable r"
| "rx_test r (c # cs) = rx_test (deriv c r) cs"

definition Plus :: "rx \<Rightarrow> rx" where
  "Plus r = Seq r (Star r)"

text \<open>The language of an expression, against which the matcher is verified.\<close>

inductive_set star :: "string set \<Rightarrow> string set" for A :: "string set" where
  star_nil: "[] \<in> star A"
| star_app: "u \<in> A \<Longrightarrow> v \<in> star A \<Longrightarrow> u @ v \<in> star A"

fun lang :: "rx \<Rightarrow> string set" where
  "lang Empty = {}"
| "lang Eps = {[]}"
| "lang (Sym P) = {[c] | c. P c}"
| "lang (Alt r s) = lang r \<union> lang s"
| "lang (Seq r s) = {u @ v | u v. u \<in> lang r \<and> v \<in> lang s}"
| "lang (Star r) = star (lang r)"

text \<open>
  Character classes. Under the \<^verbatim>\<open>i\<close> flag (without \<^verbatim>\<open>u\<close>) two characters match when
  their upper-case forms agree, and only ASCII letters have an ASCII upper-case form
  different from themselves.
\<close>

definition ascii_upper :: "char \<Rightarrow> char" where
  "ascii_upper c =
     (case map_of (zip ''abcdefghijklmnopqrstuvwxyz'' ''ABCDEFGHIJKLMNOPQRSTUVWXYZ'') c of
        None \<Rightarrow> c | Some u \<Rightarrow> u)"

definition is_alnum :: "char \<Rightarrow> bool" where
  "is_alnum c =
     (c \<in> set ''abcdefghijklmnopqrstuvwxyzABCDEFGHIJKLMNOPQRSTUVWXYZ0123456789'')"

definition is_word :: "char \<Rightarrow> bool" where
  "is_word c = (is_alnum c \<or> c = CHR ''_'')"

definition lit :: "string \<Rightarrow> rx" where
  "lit s = foldr (\<lambda>c r. Seq (Sym (\<lambda>x. x = c)) r) s Eps"

definition lit_i :: "string \<Rightarrow> rx" where
  "lit_i s = foldr (\<lambda>c r. Seq (Sym (\<lambda>x. ascii_upper x = ascii_upper c)) r) s Eps"

section \<open>Sequencing of asynchronous operations\<close>

text \<open>
  \<^verbatim>\<open>await\<close> in sequence, \<^verbatim>\<open>throw\<close>, \<^verbatim>\<open>try/catch\<close> and \<^verbatim>\<open>try/finally\<close> over actions. An
  error raised by the \<^verbatim>\<open>finally\<close> block replaces the outcome of the body.
\<close>

definition returnE :: "'a \<Rightarrow> ('s, 'a) action" where
  "returnE x = (\<lambda>s. (Inr x, s))"

definition throwE :: "error \<Rightarrow> ('s, 'a) action" where
  "throwE e = (\<lambda>s. (Inl e, s))"

definition bindE :: "('s, 'a) action \<Rightarrow> ('a \<Rightarrow> ('s, 'b) action) \<Rightarrow> ('s, 'b) action" where
  "bindE m f = (\<lambda>s. case m s of (Inl e, s') \<Rightarrow> (Inl e, s') | (Inr x, s') \<Rightarrow> f x s')"

definition catchE :: "('s, 'a) action \<Rightarrow> (error \<Rightarrow> ('s, 'a) action) \<Rightarrow> ('s, 'a) action" where
  "catchE m h = (\<lambda>s. case m s of (Inl e, s') \<Rightarrow> h e s' | (Inr x, s') \<Rightarrow> (Inr x, s'))"

definition finallyE :: "('s, 'a) action \<Rightarrow> ('s, unit) action \<Rightarrow> ('s, 'a) action" where
  "finallyE m c =
     (\<lambda>s. case m s of (r, s') \<Rightarrow>
        (case c s' of (Inl e, s'') \<Rightarrow> (Inl e, s'') | (Inr u, s'') \<Rightarrow> (r, s'')))"

text \<open>A \<^verbatim>\<open>for ... of\<close> loop whose body is awaited: it stops at the first error.\<close>

fun for_each :: "('a \<Rightarrow> ('s, unit) action) \<Rightarrow> 'a list \<Rightarrow> ('s, unit) action" where
  "for_each f [] = returnE ()"
| "for_each f (x # xs) = bindE (f x) (\<lambda>u. for_each f xs)"

text \<open>
  \<^verbatim>\<open>Promise.all\<close> over tasks started together. The tasks are run to completion one after
  the other in list order (one schedule of the cooperative interleaving); none is
  cancelled when another fails, and the join rejects with the first failure in list
  order.
\<close>

fun run_all :: "('s, 'a) action list \<Rightarrow> 's \<Rightarrow> (error + 'a) list \<times> 's" where
  "run_all [] s = ([], s)"
| "run_all (m # ms) s =
     (case m s of (r, s') \<Rightarrow> (case run_all ms s' of (rs, s'') \<Rightarrow> (r # rs, s'')))"

fun settle :: "(error + 'a) list \<Rightarrow> error + 'a list" where
  "settle [] = Inr []"
| "settle (Inl e # rs) = Inl e"
| "settle (Inr x # rs) = (case settle rs of Inl e \<Rightarrow> Inl e | Inr xs \<Rightarrow> Inr (x # xs))"

definition promise_all :: "('s, 'a) action list \<Rightarrow> ('s, 'a list) action" where
  "promise_all ms = (\<lambda>s. case run_all ms s of (rs, s') \<Rightarrow> (settle rs, s'))"

section \<open>The transcoder (HLS pipeline)\<close>

subsection \<open>Configuration and key layout\<close>

record resolution =
  name :: string
  width :: nat
  height :: nat
  bitrate :: string

definition RESOLUTIONS :: "resolution list" where
  "RESOLUTIONS =
     [\<lparr>name = ''1080p'', width = 1920, height = 1080, bitrate = ''5000k''\<rparr>,
      \<lparr>name = ''720p'', width = 1280, height = 720, bitrate = ''2800k''\<rparr>,
      \<lparr>name = ''480p'', width = 854, height = 480, bitrate = ''1400k''\<rparr>,
      \<lparr>name = ''360p'', width = 640, height = 360, bitrate = ''800k''\<rparr>]"

text \<open>
  \<^verbatim>\<open>generateS3Paths\<close>: \<^verbatim>\<open>keyParts[1]\<close> is \<^verbatim>\<open>undefined\<close> when the key has no separator.
\<close>

record s3paths =
  courseId :: "string option"
  filename :: string

definition generateS3Paths :: "string \<Rightarrow> s3paths" where
  "generateS3Paths originalKey =
     (let keyParts = split_on CHR ''/'' originalKey
      in \<lparr>courseId = (if 1 < length keyParts then Some (keyParts ! 1) else None),
          filename = path_parse_name (last keyParts)\<rparr>)"

definition getHLSBasePath :: "s3paths \<Rightarrow> string" where
  "getHLSBasePath p = js_str (courseId p) @ ''/hls/'' @ filename p"

definition getMasterPlaylistKey :: "s3paths \<Rightarrow> string" where
  "getMasterPlaylistKey p = js_str (courseId p) @ ''/hls/'' @ filename p @ ''/master.m3u8''"


definition getVariantPlaylistKey :: "s3paths \<Rightarrow> string \<Rightarrow> string" where
  "getVariantPlaylistKey p res =
     js_str (courseId p) @ ''/hls/'' @ filename p @ ''/'' @ res @ ''/playlist.m3u8''"

subsection \<open>The world the pipeline acts on\<close>

text \<open>
  The local disk (files with their contents, in creation order, and directories, both
  by absolute path), the object store (by bucket and key) and the history of the
  external calls made so far.
\<close>

record s3object =
  body :: string
  contentType :: string

datatype event =
    Mkdtemp string
  | Mkdir string
  | GetObject string string
  | WriteStream string
  | Stat string
  | Ffprobe string
  | Ffmpeg string string string
  | Readdir string
  | HeadObject string string
  | PutObject string string string
  | WriteFile string
  | Rm string
  | Timeout nat

record world =
  files :: "(string \<times> string) list"
  dirs :: "string list"
  s3 :: "string \<times> string \<Rightarrow> s3object option"
  trace :: "event list"

text \<open>
  What the program does not decide: its environment variables and working directory,
  the failures of external calls (\<open>fault\<close>, given the history and the call), the suffix
  \<^verbatim>\<open>mkdtemp\<close> picks, and the behaviour of \<^verbatim>\<open>ffprobe\<close> and \<^verbatim>\<open>ffmpeg\<close>: an error message, or the
  files (name and content) the encoder writes into the variant's directory.
\<close>

record env =
  AWS_S3_TEMP_BUCKET :: string
  AWS_S3_PROD_BUCKET :: string
  cwd :: string
  fault :: "event list \<Rightarrow> event \<Rightarrow> error option"
  random_suffix :: "event list \<Rightarrow> string"
  ffprobe_error :: "event list \<Rightarrow> string \<Rightarrow> string option"
  ffmpeg_run :: "event list \<Rightarrow> string \<Rightarrow> resolution \<Rightarrow> (string \<times> string) + (string \<times> string) list"

definition emit :: "event \<Rightarrow> world \<Rightarrow> world" where
  "emit ev w = w\<lparr>trace := trace w @ [ev]\<rparr>"

text \<open>An external call: recorded in the history, then failed by the environment or performed.\<close>

definition external :: "env \<Rightarrow> event \<Rightarrow> (world, 'a) action \<Rightarrow> (world, 'a) action" where
  "external e ev normal =
     (\<lambda>w. case fault e (trace w) ev of
             Some err \<Rightarrow> (Inl err, emit ev w)
           | None \<Rightarrow> normal (emit ev w))"

definition set_timeout :: "nat \<Rightarrow> world \<Rightarrow> world" where
  "set_timeout delay w = emit (Timeout delay) w"

definition path_resolve :: "env \<Rightarrow> string \<Rightarrow> string" where
  "path_resolve e p = (if p \<noteq> [] \<and> hd p = CHR ''/'' then p else cwd e @ ''/'' @ p)"

fun write_file :: "string \<Rightarrow> string \<Rightarrow> (string \<times> string) list \<Rightarrow> (string \<times> string) list" where
  "write_file p c [] = [(p, c)]"
| "write_file p c ((q, d) # fs) = (if q = p then (p, c) # fs else (q, d) # write_file p c fs)"

definition under :: "string \<Rightarrow> string \<Rightarrow> bool" where
  "under dir q = (q = dir \<or> take (Suc (length dir)) q = dir @ ''/'')"

definition children :: "string \<Rightarrow> (string \<times> string) list \<Rightarrow> string list" where
  "children dir fs =
     [drop (Suc (length dir)) p. (p, c) \<leftarrow> fs,
        take (Suc (length dir)) p = dir @ ''/'' \<and> CHR ''/'' \<notin> set (drop (Suc (length dir)) p)]"

definition ends_with :: "string \<Rightarrow> string \<Rightarrow> bool" where
  "ends_with suffix s = (length suffix \<le> length s \<and> drop (length s - length suffix) s = suffix)"

subsection \<open>File system and object store calls\<close>

definition fs_mkdtemp :: "env \<Rightarrow> string \<Rightarrow> (world, string) action" where
  "fs_mkdtemp e prefix =
     (\<lambda>w. external e (Mkdtemp prefix)
        (\<lambda>w1. (Inr (prefix @ random_suffix e (trace w)),
               w1\<lparr>dirs := dirs w1 @ [path_resolve e (prefix @ random_suffix e (trace w))]\<rparr>)) w)"

definition fs_mkdir :: "env \<Rightarrow> string \<Rightarrow> (world, unit) action" where
  "fs_mkdir e path =
     external e (Mkdir path)
       (\<lambda>w. (Inr (), w\<lparr>dirs := (if path_resolve e path \<in> set (dirs w) then dirs w
                                 else dirs w @ [path_resolve e path])\<rparr>))"

definition fs_writeStream :: "env \<Rightarrow> string \<Rightarrow> string \<Rightarrow> (world, unit) action" where
  "fs_writeStream e path content =
     external e (WriteStream path)
       (\<lambda>w. (Inr (), w\<lparr>files := write_file (path_resolve e path) content (files w)\<rparr>))"

definition fs_writeFile :: "env \<Rightarrow> string \<Rightarrow> string \<Rightarrow> (world, unit) action" where
  "fs_writeFile e path content =
     external e (WriteFile path)
       (\<lambda>w. (Inr (), w\<lparr>files := write_file (path_resolve e path) content (files w)\<rparr>))"

definition fs_stat :: "env \<Rightarrow> string \<Rightarrow> (world, nat) action" where
  "fs_stat e path =
     external e (Stat path)
       (\<lambda>w. case map_of (files w) (path_resolve e path) of
               None \<Rightarrow> (Inl (ServiceError ''ENOENT'' ''no such file or directory''), w)
             | Some c \<Rightarrow> (Inr (length c), w))"

definition fs_readdir :: "env \<Rightarrow> string \<Rightarrow> (world, string list) action" where
  "fs_readdir e path =
     external e (Readdir path)
       (\<lambda>w. if path_resolve e path \<in> set (dirs w)
             then (Inr (children (path_resolve e path) (files w)), w)
             else (Inl (ServiceError ''ENOENT'' ''no such file or directory''), w))"

text \<open>\<^verbatim>\<open>fs.rm(path, { recursive: true, force: true })\<close>.\<close>

definition fs_rm :: "env \<Rightarrow> string \<Rightarrow> (world, unit) action" where
  "fs_rm e path =
     external e (Rm path)
       (\<lambda>w. (Inr (), w\<lparr>files := filter (\<lambda>(q, c). \<not> under (path_resolve e path) q) (files w),
                        dirs := filter (\<lambda>q. \<not> under (path_resolve e path) q) (dirs w)\<rparr>))"

definition s3_getObject :: "env \<Rightarrow> string \<Rightarrow> string \<Rightarrow> (world, string) action" where
  "s3_getObject e bucket key =
     external e (GetObject bucket key)
       (\<lambda>w. case s3 w (bucket, key) of
               None \<Rightarrow> (Inl (ServiceError ''NoSuchKey'' ''The specified key does not exist.''), w)
             | Some obj \<Rightarrow> (Inr (body obj), w))"

definition s3_headObject :: "env \<Rightarrow> string \<Rightarrow> string \<Rightarrow> (world, unit) action" where
  "s3_headObject e bucket key =
     external e (HeadObject bucket key)
       (\<lambda>w. case s3 w (bucket, key) of
               None \<Rightarrow> (Inl (ServiceError ''NotFound'' ''NotFound''), w)
             | Some obj \<Rightarrow> (Inr (), w))"

definition s3_putObject :: "env \<Rightarrow> string \<Rightarrow> string \<Rightarrow> string \<Rightarrow> string \<Rightarrow> (world, unit) action" where
  "s3_putObject e filePath bucket key ctype =
     external e (PutObject bucket key ctype)
       (\<lambda>w. case map_of (files w) (path_resolve e filePath) of
               None \<Rightarrow> (Inl (ServiceError ''ENOENT'' ''no such file or directory''), w)
             | Some c \<Rightarrow>
                 (Inr (), w\<lparr>s3 := (s3 w)((bucket, key) \<mapsto> \<lparr>body = c, contentType = ctype\<rparr>)\<rparr>))"

subsection \<open>The pipeline's operations\<close>

definition checkFileExists :: "env \<Rightarrow> string \<Rightarrow> string \<Rightarrow> (world, bool) action" where
  "checkFileExists e bucket key =
     catchE (bindE (s3_headObject e bucket key) (\<lambda>u. returnE True))
       (\<lambda>err. case error_name err of
                 None \<Rightarrow> throwE (TypeError ''Cannot read properties of undefined'')
               | Some n \<Rightarrow> if n = ''NotFound'' then returnE False else throwE err)"

definition downloadFromS3 :: "env \<Rightarrow> string \<Rightarrow> string \<Rightarrow> (world, string) action" where
  "downloadFromS3 e bucket key =
     withRetry set_timeout
       (bindE (s3_getObject e bucket key) (\<lambda>result_Body.
          let filePath = ''original-'' @ path_basename key in
          bindE (fs_writeStream e filePath result_Body) (\<lambda>u.
          bindE (fs_stat e filePath) (\<lambda>stats_size.
            if stats_size = 0 then throwE (Error ''Downloaded file is empty'')
            else returnE (path_resolve e filePath)))))
       CONFIG_MAX_RETRIES"

text \<open>
  \<^verbatim>\<open>transcodeToHLS\<close>: the input must exist, \<^verbatim>\<open>ffprobe\<close> must read it, then the encoder
  runs (the event \<open>Ffmpeg input outputDir name\<close>) and, on success, its files are in
  \<^verbatim>\<open>outputDir/name/\<close>. Every rejection is a \<^verbatim>\<open>new Error\<close>.
\<close>

definition transcodeToHLS :: "env \<Rightarrow> string \<Rightarrow> string \<Rightarrow> resolution \<Rightarrow> (world, unit) action" where
  "transcodeToHLS e inputPath outputDir res =
     (\<lambda>w. case map_of (files w) (path_resolve e inputPath) of
        None \<Rightarrow> (Inl (Error (''Input file does not exist: '' @ inputPath)), w)
      | Some input \<Rightarrow>
          (case ffprobe_error e (trace w) inputPath of
             Some m \<Rightarrow> (Inl (Error (''Failed to probe input file: '' @ m)), emit (Ffprobe inputPath) w)
           | None \<Rightarrow>
               (case ffmpeg_run e (trace w @ [Ffprobe inputPath]) input res of
                  Inl (m, stderr) \<Rightarrow>
                    (Inl (Error (''Transcoding failed: '' @ m @ ''\<newline>Stderr: '' @ stderr)),
                     emit (Ffmpeg inputPath outputDir (name res)) (emit (Ffprobe inputPath) w))
                | Inr produced \<Rightarrow>
                    (Inr (),
                     (emit (Ffmpeg inputPath outputDir (name res)) (emit (Ffprobe inputPath) w))
                       \<lparr>files := foldl (\<lambda>fs (f, c).
                                   write_file (path_resolve e (outputDir @ ''/'' @ name res @ ''/'' @ f)) c fs)
                                 (files w) produced\<rparr>))))"

definition uploadToS3 :: "env \<Rightarrow> string \<Rightarrow> string \<Rightarrow> string \<Rightarrow> string \<Rightarrow> (world, unit) action" where
  "uploadToS3 e filePath bucket key ctype =
     withRetry set_timeout (s3_putObject e filePath bucket key ctype) CONFIG_MAX_RETRIES"

record variant =
  resolution :: string
  bandwidth :: "int option"

definition generateMasterPlaylist :: "variant list \<Rightarrow> string" where
  "generateMasterPlaylist variants =
     foldl (\<lambda>playlist v.
         playlist
           @ ''#EXT-X-STREAM-INF:BANDWIDTH='' @ show_number (bandwidth v)
           @ '',RESOLUTION='' @ resolution v
           @ '',CODECS='' @ [CHR 0x22] @ ''avc1.4d401f,mp4a.40.2'' @ [CHR 0x22] @ ''\<newline>''
           @ resolution v @ ''/playlist.m3u8\<newline>'')
       (''#EXTM3U\<newline>'' @ ''#EXT-X-VERSION:3\<newline>'' @ ''#EXT-X-INDEPENDENT-SEGMENTS\<newline>\<newline>'')
       variants"

text \<open>The \<^verbatim>\<open>for (let i = 0; i < files.length; i += CONFIG.UPLOAD_CONCURRENCY)\<close> loop.\<close>

function slices :: "nat \<Rightarrow> 'a list \<Rightarrow> 'a list list" where
  "slices i fs =
     (if i < length fs
      then take CONFIG_UPLOAD_CONCURRENCY (drop i fs) # slices (i + CONFIG_UPLOAD_CONCURRENCY) fs
      else [])"
  by pat_completeness auto
termination
  by (relation "measure (\<lambda>(i, fs). length fs - i)") (auto simp: CONFIG_UPLOAD_CONCURRENCY_def)

definition uploadHLSFiles :: "env \<Rightarrow> string \<Rightarrow> resolution \<Rightarrow> string \<Rightarrow> string \<Rightarrow> (world, unit) action" where
  "uploadHLSFiles e outputDir res bucket s3BasePath =
     bindE (fs_readdir e (outputDir @ ''/'' @ name res)) (\<lambda>fs.
       for_each (\<lambda>chunk.
           bindE (promise_all (map (\<lambda>file.
                uploadToS3 e (outputDir @ ''/'' @ name res @ ''/'' @ file) bucket
                  (s3BasePath @ ''/'' @ name res @ ''/'' @ file)
                  (if ends_with ''.m3u8'' file then ''application/x-mpegURL'' else ''video/MP2T''))
              chunk))
             (\<lambda>done. returnE ()))
         (slices 0 fs))"

text \<open>The body of the \<^verbatim>\<open>remainingResolutions.map(async (resolution) => ...)\<close> callback.\<close>

definition processVariant ::
  "env \<Rightarrow> s3paths \<Rightarrow> string \<Rightarrow> string \<Rightarrow> resolution \<Rightarrow> (world, unit) action" where
  "processVariant e s3Paths originalVideoPath workDir res =
     catchE
       (bindE (checkFileExists e (AWS_S3_PROD_BUCKET e) (getVariantPlaylistKey s3Paths (name res)))
          (\<lambda>exists.
             if exists then returnE ()
             else bindE (transcodeToHLS e originalVideoPath workDir res) (\<lambda>u.
                    uploadHLSFiles e workDir res (AWS_S3_PROD_BUCKET e) (getHLSBasePath s3Paths))))
       (\<lambda>err. throwE err)"

definition master_variants :: "variant list" where
  "master_variants =
     map (\<lambda>res. \<lparr>resolution = show_nat (width res) @ ''x'' @ show_nat (height res),
                 bandwidth = map_option (\<lambda>b. b * 1000) (parseInt (bitrate res))\<rparr>)
       RESOLUTIONS"

text \<open>
  \<^verbatim>\<open>processVideo\<close>. \<^verbatim>\<open>mkdtemp\<close> runs before the \<^verbatim>\<open>try\<close>; the \<^verbatim>\<open>finally\<close> block removes
  \<^verbatim>\<open>workDir\<close> and swallows a failure of the removal.
\<close>

definition processVideo :: "env \<Rightarrow> string \<Rightarrow> (world, bool) action" where
  "processVideo e sourceKey =
     (let s3Paths = generateS3Paths sourceKey in
      bindE (fs_mkdtemp e CONFIG_TEMP_DIR_PREFIX) (\<lambda>workDir.
        finallyE
          (catchE
             (bindE (downloadFromS3 e (AWS_S3_TEMP_BUCKET e) sourceKey) (\<lambda>originalVideoPath.
              bindE (for_each (\<lambda>res. fs_mkdir e (workDir @ ''/'' @ name res)) RESOLUTIONS) (\<lambda>u.
              let testResolution = last RESOLUTIONS in
              bindE (catchE (transcodeToHLS e originalVideoPath workDir testResolution)
                       (\<lambda>err. case error_message err of
                                 None \<Rightarrow> throwE (TypeError ''Cannot read properties of undefined'')
                               | Some m \<Rightarrow> throwE (Error (''Test transcoding failed: '' @ m))))
                (\<lambda>u.
              let remainingResolutions = butlast RESOLUTIONS in
              bindE (promise_all
                       (map (processVariant e s3Paths originalVideoPath workDir) remainingResolutions))
                (\<lambda>done.
              let masterPlaylist = generateMasterPlaylist master_variants;
                  masterPlaylistPath = workDir @ ''/master.m3u8'' in
              bindE (fs_writeFile e masterPlaylistPath masterPlaylist) (\<lambda>u.
              bindE (uploadToS3 e masterPlaylistPath (AWS_S3_PROD_BUCKET e)
                       (getMasterPlaylistKey s3Paths) ''application/x-mpegURL'') (\<lambda>u.
              returnE True)))))))
             (\<lambda>err. throwE err))
          (catchE (fs_rm e workDir) (\<lambda>err. returnE ()))))"



definition new_events :: "world \<Rightarrow> world \<Rightarrow> event list" where
  "new_events w w' = drop (length (trace w)) (trace w')"

section \<open>The consumer (event dispatcher)\<close>

subsection \<open>Values read from a message body\<close>

text \<open>
  What \<^verbatim>\<open>JSON.parse\<close> returns. The cast \<^verbatim>\<open>as S3Event\<close> checks nothing at run time, so
  every property read below is a read on an arbitrary value: \<open>None\<close> is \<^verbatim>\<open>undefined\<close>,
  and reading a property of \<^verbatim>\<open>undefined\<close> or \<^verbatim>\<open>null\<close> throws. An object is its list of
  members, the first binding of a name being the one read. The property names read by
  the source (\<^verbatim>\<open>Service\<close>, \<^verbatim>\<open>Event\<close>, \<^verbatim>\<open>Records\<close>, \<^verbatim>\<open>s3\<close>, \<^verbatim>\<open>bucket\<close>, \<^verbatim>\<open>name\<close>, \<^verbatim>\<open>object\<close>,
  \<^verbatim>\<open>key\<close>) are not properties of strings, numbers, booleans or arrays.
\<close>

datatype json = JNull | JBool bool | JNum int | JStr string | JArr "json list" | JObj "(string \<times> json) list"

fun js_prop :: "json option \<Rightarrow> string \<Rightarrow> error + json option" where
  "js_prop None k = Inl (TypeError ''Cannot read properties of undefined'')"
| "js_prop (Some JNull) k = Inl (TypeError ''Cannot read properties of null'')"
| "js_prop (Some (JObj kvs)) k = Inr (map_of kvs k)"
| "js_prop (Some v) k = Inr None"

text \<open>The \<^verbatim>\<open>in\<close> operator: a \<^verbatim>\<open>TypeError\<close> on a value that is not an object.\<close>

fun js_in :: "string \<Rightarrow> json \<Rightarrow> error + bool" where
  "js_in k (JObj kvs) = Inr (map_of kvs k \<noteq> None)"
| "js_in k (JArr xs) = Inr False"
| "js_in k v = Inl (TypeError ''Cannot use in operator'')"

text \<open>\<^verbatim>\<open>for (const record of v)\<close>: arrays and strings are iterable, nothing else here is.\<close>

fun js_iterate :: "json option \<Rightarrow> error + json list" where
  "js_iterate (Some (JArr xs)) = Inr xs"
| "js_iterate (Some (JStr s)) = Inr (map (\<lambda>c. JStr [c]) s)"
| "js_iterate v = Inl (TypeError ''event.Records is not iterable'')"

text \<open>The string conversion \<^verbatim>\<open>RegExp.prototype.test\<close> applies to its argument.\<close>

fun join_with :: "string \<Rightarrow> string list \<Rightarrow> string" where
  "join_with sep [] = []"
| "join_with sep [x] = x"
| "join_with sep (x # y # ys) = x @ sep @ join_with sep (y # ys)"

fun json_toString :: "json \<Rightarrow> string" where
  "json_toString JNull = ''null''"
| "json_toString (JBool b) = (if b then ''true'' else ''false'')"
| "json_toString (JNum n) = show_int n"
| "json_toString (JStr s) = s"
| "json_toString (JArr xs) =
     join_with '','' (map (\<lambda>x. if x = JNull then [] else json_toString x) xs)"
| "json_toString (JObj kvs) = ''[object Object]''"

definition js_toString :: "json option \<Rightarrow> string" where
  "js_toString v = (case v of None \<Rightarrow> ''undefined'' | Some x \<Rightarrow> json_toString x)"

definition bindS :: "error + 'a \<Rightarrow> ('a \<Rightarrow> error + 'b) \<Rightarrow> error + 'b" where
  "bindS r f = (case r of Inl e \<Rightarrow> Inl e | Inr x \<Rightarrow> f x)"

definition lift :: "error + 'a \<Rightarrow> ('s, 'a) action" where
  "lift r = (\<lambda>s. (r, s))"

subsection \<open>Queue, launcher and messages\<close>

record message =
  MessageId :: string
  Body :: "string option"
  ReceiptHandle :: string

datatype request =
    RunTask "json option" "json option"
  | DeleteMessage string
  | ChangeMessageVisibility string nat

text \<open>
  The dispatcher's history: every command sent (with whether it succeeded) and every
  pause. The environment decides, from the history, whether a command fails.
\<close>

datatype qevent = Sent request bool | Sleep nat

record consumer_env =
  JSON_parse :: "string \<Rightarrow> error + json"
  respond :: "qevent list \<Rightarrow> request \<Rightarrow> error option"
  receive :: "qevent list \<Rightarrow> error + message list option"

definition VISIBILITY_TIMEOUT :: nat where
  "VISIBILITY_TIMEOUT = 900"

definition send :: "consumer_env \<Rightarrow> request \<Rightarrow> (qevent list, unit) action" where
  "send e req =
     (\<lambda>tr. case respond e tr req of
              Some err \<Rightarrow> (Inl err, tr @ [Sent req False])
            | None \<Rightarrow> (Inr (), tr @ [Sent req True]))"

definition sleep :: "nat \<Rightarrow> qevent list \<Rightarrow> qevent list" where
  "sleep ms tr = tr @ [Sleep ms]"

subsection \<open>Validation and dispatch\<close>

definition validateAndParseEvent :: "consumer_env \<Rightarrow> string \<Rightarrow> error + json" where
  "validateAndParseEvent e b =
     bindS (JSON_parse e b) (\<lambda>event.
       bindS (js_in ''Service'' event) (\<lambda>hasService.
         if hasService then
           bindS (js_in ''Event'' event) (\<lambda>hasEvent.
             if hasEvent \<and> js_prop (Some event) ''Event'' = Inr (Some (JStr ''s3:TestEvent''))
             then Inl (Error ''Test event received'')
             else Inr event)
         else Inr event))"

text \<open>\<^verbatim>\<open>/^courses\/[\w-]+\/videos\/[\w-]+\.(mp4|mov|avi)$/i\<close>\<close>

definition keyPattern :: rx where
  "keyPattern =
     Seq (lit_i ''courses/'')
       (Seq (Plus (Sym (\<lambda>c. is_word c \<or> c = CHR ''-'')))
          (Seq (lit_i ''/videos/'')
             (Seq (Plus (Sym (\<lambda>c. is_word c \<or> c = CHR ''-'')))
                (Seq (lit_i ''.'') (Alt (lit_i ''mp4'') (Alt (lit_i ''mov'') (lit_i ''avi'')))))))"

definition validateS3Key :: "json option \<Rightarrow> bool" where
  "validateS3Key key = rx_test keyPattern (js_toString key)"

text \<open>
  The destructuring \<^verbatim>\<open>const { s3: { bucket: { name: bucketName }, object: { key: objectKey } } } = record\<close>.
\<close>

definition destructure :: "json \<Rightarrow> error + json option \<times> json option" where
  "destructure rec =
     bindS (js_prop (Some rec) ''s3'') (\<lambda>s3v.
       bindS (js_prop s3v ''bucket'') (\<lambda>bucket.
         bindS (js_prop bucket ''name'') (\<lambda>bucketName.
           bindS (js_prop s3v ''object'') (\<lambda>object.
             bindS (js_prop object ''key'') (\<lambda>objectKey.
               Inr (bucketName, objectKey))))))"

definition launchEcsTask :: "consumer_env \<Rightarrow> json option \<Rightarrow> json option \<Rightarrow> (qevent list, unit) action" where
  "launchEcsTask e bucketName objectKey = send e (RunTask bucketName objectKey)"

text \<open>The body of the loop over \<^verbatim>\<open>event.Records\<close>.\<close>

definition dispatchRecord :: "consumer_env \<Rightarrow> json \<Rightarrow> (qevent list, unit) action" where
  "dispatchRecord e rec =
     bindE (lift (destructure rec)) (\<lambda>(bucketName, objectKey).
       if \<not> validateS3Key objectKey then returnE ()
       else retryWithBackoff sleep (launchEcsTask e bucketName objectKey) MAX_RETRIES)"

definition processMessage :: "consumer_env \<Rightarrow> message \<Rightarrow> (qevent list, unit) action" where
  "processMessage e msg =
     catchE
       (bindE (case Body msg of
                 None \<Rightarrow> throwE (Error ''Empty message body'')
               | Some b \<Rightarrow> if b = [] then throwE (Error ''Empty message body'')
                           else lift (validateAndParseEvent e b)) (\<lambda>event.
        bindE (lift (bindS (js_prop (Some event) ''Records'') js_iterate)) (\<lambda>records.
        bindE (for_each (dispatchRecord e) records) (\<lambda>u.
        send e (DeleteMessage (ReceiptHandle msg))))))
       (\<lambda>err.
          bindE (catchE (send e (ChangeMessageVisibility (ReceiptHandle msg) VISIBILITY_TIMEOUT))
                   (\<lambda>visibilityError. returnE ()))
            (\<lambda>u. throwE err))"

text \<open>
  One pass of the \<^verbatim>\<open>while (true)\<close> loop of \<^verbatim>\<open>init\<close>: receive a batch, process every
  message with its own \<^verbatim>\<open>.catch\<close>, and pause one second after an error of the pass itself.
\<close>

definition init_iteration :: "consumer_env \<Rightarrow> (qevent list, unit) action" where
  "init_iteration e =
     catchE
       (bindE (\<lambda>tr. (receive e tr, tr)) (\<lambda>Messages.
          case Messages of
            None \<Rightarrow> returnE ()
          | Some ms \<Rightarrow>
              if ms = [] then returnE ()
              else bindE (promise_all
                            (map (\<lambda>m. catchE (processMessage e m) (\<lambda>err. returnE ())) ms))
                     (\<lambda>done. returnE ())))
       (\<lambda>err. (\<lambda>tr. (Inr (), sleep 1000 tr)))"


definition launch_requests :: "qevent list \<Rightarrow> (json option \<times> json option) list" where
  "launch_requests tr = concat (map (\<lambda>ev. case ev of Sent (RunTask b k) ok \<Rightarrow> [(b, k)] | _ \<Rightarrow> []) tr)"

text \<open>A well-formed record of an S3 notification.\<close>

definition s3_record :: "string \<times> string \<Rightarrow> json" where
  "s3_record bk =
     JObj [(''s3'', JObj [(''bucket'', JObj [(''name'', JStr (fst bk))]),
                          (''object'', JObj [(''key'', JStr (snd bk))])])]"

section \<open>The URL signing service\<close>

text \<open>
  A point in time is its number of milliseconds since the epoch; \<^verbatim>\<open>toISOString\<close> prints
  it and throws a \<^verbatim>\<open>RangeError\<close> outside the range of \<^verbatim>\<open>Date\<close>. The clock, the URL
  resolution and CloudFront's signer are the environment; the state counts the clock
  reads and records every call of the signer.
\<close>

record url_env =
  CLOUDFRONT_DOMAIN :: string
  Date_now :: "nat \<Rightarrow> int"
  URL_resolve :: "string \<Rightarrow> string \<Rightarrow> error + string"
  getSignedUrl :: "(string \<times> int) list \<Rightarrow> string \<Rightarrow> int \<Rightarrow> error + string"

record url_state =
  clock_reads :: nat
  signer_calls :: "(string \<times> int) list"

definition valid_time :: "int \<Rightarrow> bool" where
  "valid_time t = (\<bar>t\<bar> \<le> 8640000000000000)"

definition read_clock :: "url_env \<Rightarrow> (url_state, int) action" where
  "read_clock e = (\<lambda>st. (Inr (Date_now e (clock_reads st)), st\<lparr>clock_reads := Suc (clock_reads st)\<rparr>))"

definition toISOString :: "int \<Rightarrow> error + int" where
  "toISOString t = (if valid_time t then Inr t else Inl (RangeError ''Invalid time value''))"

text \<open>
  \<^verbatim>\<open>generateSignedUrl\<close> (\<^verbatim>\<open>expiresIn = 3600\<close> when absent). \<^verbatim>\<open>setSeconds\<close> moves the date
  by \<^verbatim>\<open>expiresIn\<close> seconds (on a host whose zone offset does not change in between).
\<close>

definition generateSignedUrl :: "url_env \<Rightarrow> string \<Rightarrow> int option \<Rightarrow> (url_state, string) action" where
  "generateSignedUrl e videoKey expiresIn_opt =
     (let expiresIn = (case expiresIn_opt of None \<Rightarrow> 3600 | Some x \<Rightarrow> x) in
      bindE (lift (URL_resolve e videoKey (CLOUDFRONT_DOMAIN e))) (\<lambda>url_string.
      bindE (read_clock e) (\<lambda>now.
      bindE (lift (toISOString (now + expiresIn * 1000))) (\<lambda>dateLessThan.
        (\<lambda>st. (getSignedUrl e (signer_calls st) url_string dateLessThan,
               st\<lparr>signer_calls := signer_calls st @ [(url_string, dateLessThan)]\<rparr>))))))"

record response_data =
  url :: string
  expiresIn :: int
  expiresAt :: int

record VideoResponse =
  success :: bool
  data :: "response_data option"
  error :: "string option"

definition DEFAULT_EXPIRES_IN :: int where
  "DEFAULT_EXPIRES_IN = 3600"

text \<open>\<^verbatim>\<open>Boolean(key && key.match(/^[a-zA-Z0-9-_/]+$/))\<close>\<close>

definition isValidKey :: "string \<Rightarrow> bool" where
  "isValidKey key =
     (key \<noteq> [] \<and>
      rx_test (Plus (Sym (\<lambda>c. is_alnum c \<or> c = CHR ''-'' \<or> c = CHR ''_'' \<or> c = CHR ''/''))) key)"

definition getExpiryDate :: "url_env \<Rightarrow> int \<Rightarrow> (url_state, int) action" where
  "getExpiryDate e expires = bindE (read_clock e) (\<lambda>now. lift (toISOString (now + expires * 1000)))"

definition generateUrl :: "url_env \<Rightarrow> string \<Rightarrow> int option \<Rightarrow> url_state \<Rightarrow> VideoResponse \<times> url_state" where
  "generateUrl e videoKey expiresIn_opt =
     (let expires = (case expiresIn_opt of None \<Rightarrow> DEFAULT_EXPIRES_IN | Some x \<Rightarrow> x) in
      if \<not> isValidKey videoKey
      then (\<lambda>st. (\<lparr>success = False, data = None, error = Some ''Invalid videoKey format''\<rparr>, st))
      else (\<lambda>st.
        case bindE (generateSignedUrl e videoKey (Some expires)) (\<lambda>signedUrl.
               bindE (getExpiryDate e expires) (\<lambda>at.
                 returnE \<lparr>url = signedUrl, expiresIn = expires, expiresAt = at\<rparr>)) st of
          (Inr d, st') \<Rightarrow> (\<lparr>success = True, data = Some d, error = None\<rparr>, st')
        | (Inl err, st') \<Rightarrow>
            (\<lparr>success = False, data = None, error = Some ''Failed to generate signed URL''\<rparr>, st')))"

section \<open>Concrete scenarios\<close>

text \<open>An operation whose every attempt fails, each time with a different error.\<close>

definition flaky :: "(nat, unit) action" where
  "flaky = (\<lambda>k. (Inl (Error (''failure '' @ show_nat k)), Suc k))"

section \<open>Source keys\<close>

text \<open>
  The keys \<^verbatim>\<open>keyPattern\<close> accepts, with the two parts it captures: some spelling of
  \<^verbatim>\<open>courses/\<close> in any letter case, the course, some spelling of \<^verbatim>\<open>/videos/\<close>, the file name, a
  dot and some spelling of one of the three extensions; course and file name are
  non-empty runs of letters, digits, \<^verbatim>\<open>_\<close> and \<^verbatim>\<open>-\<close>.
\<close>

definition accepted_key :: "string \<Rightarrow> string \<Rightarrow> string \<Rightarrow> bool" where
  "accepted_key key c f =
     (\<exists>p v x. key = p @ c @ v @ f @ ''.'' @ x
        \<and> map ascii_upper p = ''COURSES/'' \<and> map ascii_upper v = ''/VIDEOS/''
        \<and> map ascii_upper x \<in> {''MP4'', ''MOV'', ''AVI''}
        \<and> c \<noteq> [] \<and> f \<noteq> []
        \<and> (\<forall>ch \<in> set (c @ f). is_word ch \<or> ch = CHR ''-''))"

text \<open>
  The source key convention as the specification words it: the path
  \<^verbatim>\<open>courses/{courseId}/videos/{filename}.{mp4|mov|avi}\<close> with only the extension compared
  without regard to letter case; course and file name non-empty and free of separators.
\<close>

definition spec_source_key :: "string \<Rightarrow> bool" where
  "spec_source_key key =
     (\<exists>c f x. key = ''courses/'' @ c @ ''/videos/'' @ f @ ''.'' @ x
        \<and> map ascii_upper x \<in> {''MP4'', ''MOV'', ''AVI''}
        \<and> c \<noteq> [] \<and> f \<noteq> [] \<and> CHR ''/'' \<notin> set c \<and> CHR ''/'' \<notin> set f)"

text \<open>An environment of the dispatcher in which no command fails and nothing parses.\<close>

definition calm :: consumer_env where
  "calm = \<lparr>JSON_parse = (\<lambda>b. Inl (SyntaxError ''Unexpected token'')),
            respond = (\<lambda>h r. None),
            receive = (\<lambda>h. Inr None)\<rparr>"

text \<open>A signing environment: the clock advances one millisecond per read from 1000000.\<close>

definition signing :: url_env where
  "signing = \<lparr>CLOUDFRONT_DOMAIN = ''https://cdn.example'',
              Date_now = (\<lambda>k. 1000000 + int k),
              URL_resolve = (\<lambda>k b. Inr (b @ ''/'' @ k)),
              getSignedUrl = (\<lambda>h u d. Inr (u @ ''?Signature=s''))\<rparr>"


text \<open>Whether a command was sent at all, whatever its outcome.\<close>

definition issued :: "request \<Rightarrow> qevent list \<Rightarrow> bool" where
  "issued req tr = (Sent req True \<in> set tr \<or> Sent req False \<in> set tr)"



text \<open>
  A batch of three notifications and two test notifications. The bodies are named by
  what they parse to; in the environment \<open>outage\<close> every launch for \<^verbatim>\<open>w.mov\<close> is refused
  and every other command succeeds.
\<close>

definition bodies :: "(string \<times> json) list" where
  "bodies =
     [(''notification: v.mp4'',
         JObj [(''Records'', JArr (map s3_record [(''uploads'', ''courses/c1/videos/v.mp4'')]))]),
      (''notification: w.mov'',
         JObj [(''Records'', JArr (map s3_record [(''uploads'', ''courses/c2/videos/w.mov'')]))]),
      (''notification: notes.txt, x.avi'',
         JObj [(''Records'', JArr (map s3_record [(''uploads'', ''courses/c3/videos/notes.txt''),
                                                  (''uploads'', ''courses/c3/videos/x.avi'')]))]),
      (''test notification: s3:TestEvent'',
         JObj [(''Service'', JStr ''Amazon S3''), (''Event'', JStr ''s3:TestEvent'')]),
      (''test notification: test-event'',
         JObj [(''Service'', JStr ''Amazon S3''), (''Event'', JStr ''test-event'')])]"

definition outage :: consumer_env where
  "outage =
     \<lparr>JSON_parse = (\<lambda>b. case map_of bodies b of
                            None \<Rightarrow> Inl (SyntaxError ''Unexpected token'')
                          | Some j \<Rightarrow> Inr j),
      respond = (\<lambda>h req.
         if req = RunTask (Some (JStr ''uploads'')) (Some (JStr ''courses/c2/videos/w.mov''))
         then Some (ServiceError ''ThrottlingException'' ''Rate exceeded'') else None),
      receive = (\<lambda>h. Inr (Some
         [\<lparr>MessageId = ''m1'', Body = Some ''notification: v.mp4'', ReceiptHandle = ''r1''\<rparr>,
          \<lparr>MessageId = ''m2'', Body = Some ''notification: w.mov'', ReceiptHandle = ''r2''\<rparr>,
          \<lparr>MessageId = ''m3'', Body = Some ''notification: notes.txt, x.avi'', ReceiptHandle = ''r3''\<rparr>]))\<rparr>"

section \<open>Reasoning about runs\<close>

text \<open>
  \<open>post m R\<close>: every run of \<open>m\<close> relates the state before to the state after by \<open>R\<close>,
  whether it ends in a value or in an error. \<open>emits P\<close> relates two worlds when the
  history only grew, by events that all satisfy \<open>P\<close>.
\<close>

definition post :: "('s, 'a) action \<Rightarrow> ('s \<Rightarrow> 's \<Rightarrow> bool) \<Rightarrow> bool" where
  "post m R = (\<forall>s r s'. m s = (r, s') \<longrightarrow> R s s')"

definition emits :: "(event \<Rightarrow> bool) \<Rightarrow> world \<Rightarrow> world \<Rightarrow> bool" where
  "emits P w w' = (\<exists>evs. trace w' = trace w @ evs \<and> (\<forall>ev \<in> set evs. P ev))"



text \<open>The stages of \<^verbatim>\<open>processVideo\<close>, named for the proofs (see \<open>processVideo_stages\<close>).\<close>

definition prepare :: "env \<Rightarrow> string \<Rightarrow> string \<Rightarrow> (world, string) action" where
  "prepare e sourceKey workDir =
     bindE (downloadFromS3 e (AWS_S3_TEMP_BUCKET e) sourceKey) (\<lambda>originalVideoPath.
     bindE (for_each (\<lambda>res. fs_mkdir e (workDir @ ''/'' @ name res)) RESOLUTIONS) (\<lambda>u.
     returnE originalVideoPath))"

definition canary :: "env \<Rightarrow> string \<Rightarrow> string \<Rightarrow> (world, unit) action" where
  "canary e originalVideoPath workDir =
     catchE (transcodeToHLS e originalVideoPath workDir (last RESOLUTIONS))
       (\<lambda>err. case error_message err of
                 None \<Rightarrow> throwE (TypeError ''Cannot read properties of undefined'')
               | Some m \<Rightarrow> throwE (Error (''Test transcoding failed: '' @ m)))"

definition fan_out :: "env \<Rightarrow> s3paths \<Rightarrow> string \<Rightarrow> string \<Rightarrow> (world, unit list) action" where
  "fan_out e s3Paths originalVideoPath workDir =
     promise_all (map (processVariant e s3Paths originalVideoPath workDir) (butlast RESOLUTIONS))"

definition publish_master :: "env \<Rightarrow> s3paths \<Rightarrow> string \<Rightarrow> (world, bool) action" where
  "publish_master e s3Paths workDir =
     bindE (fs_writeFile e (workDir @ ''/master.m3u8'') (generateMasterPlaylist master_variants)) (\<lambda>u.
     bindE (uploadToS3 e (workDir @ ''/master.m3u8'') (AWS_S3_PROD_BUCKET e)
              (getMasterPlaylistKey s3Paths) ''application/x-mpegURL'') (\<lambda>u.
     returnE True))"

definition cleanup :: "env \<Rightarrow> string \<Rightarrow> (world, unit) action" where
  "cleanup e workDir = catchE (fs_rm e workDir) (\<lambda>err. returnE ())"




definition grows :: "world \<Rightarrow> world \<Rightarrow> bool" where
  "grows w w' = (\<exists>evs. trace w' = trace w @ evs)"

text \<open>
  Runs of the pipeline on the source \<^verbatim>\<open>courses/c1/videos/v.mp4\<close>. In \<open>studio\<close> nothing
  fails and the encoder writes a playlist and one segment; in \<open>broken_encoder\<close> the
  encoder fails on every input. The worlds: \<open>fresh\<close> holds the uploaded source only,
  \<open>empty_upload\<close> holds a source of zero bytes, \<open>populated\<close> holds the source and every
  destination artifact of an earlier job.
\<close>

definition studio :: env where
  "studio =
     \<lparr>AWS_S3_TEMP_BUCKET = ''uploads'', AWS_S3_PROD_BUCKET = ''streams'', cwd = ''/app'',
      fault = (\<lambda>h ev. None),
      random_suffix = (\<lambda>h. ''Ab3dE9''),
      ffprobe_error = (\<lambda>h p. None),
      ffmpeg_run = (\<lambda>h i res. Inr [(''playlist.m3u8'', ''#EXTM3U''), (''segment_000.ts'', ''TS'')])\<rparr>"


definition fresh :: world where
  "fresh =
     \<lparr>files = [], dirs = [],
      s3 = [(''uploads'', ''courses/c1/videos/v.mp4'') \<mapsto> \<lparr>body = ''VIDEO'', contentType = ''video/mp4''\<rparr>],
      trace = []\<rparr>"

definition empty_upload :: world where
  "empty_upload =
     \<lparr>files = [], dirs = [],
      s3 = [(''uploads'', ''courses/c1/videos/v.mp4'') \<mapsto> \<lparr>body = [], contentType = ''video/mp4''\<rparr>],
      trace = []\<rparr>"


chapter \<open>Verification\<close>

section \<open>Retry exhaustion\<close>

lemma observed_fail:
  assumes "always_fails operation"
  obtains e s' where "observed operation (s, lg) = (Inl e, (s', lg @ [Attempt (Inl e)]))"
proof -
  from assms obtain e s' where "operation s = (Inl e, s')"
    unfolding always_fails_def by blast
  then have "observed operation (s, lg) = (Inl e, (s', lg @ [Attempt (Inl e)]))"
    by (simp add: observed_def)
  then show thesis by (rule that)
qed

lemma schedule_step:
  fixes b c :: nat
  assumes "a < n"
  shows "concat (map (\<lambda>k. [None, Some (min (b * 2 ^ (k - 1)) c)]) [a..<n])
         = [None, Some (min (b * 2 ^ (a - 1)) c)]
           @ concat (map (\<lambda>k. [None, Some (min (b * 2 ^ (k - 1)) c)]) [Suc a..<n])"
  using assms by (simp add: upt_conv_Cons)

lemma withRetry_loop_fails:
  assumes af: "always_fails operation"
  shows "1 \<le> a \<Longrightarrow> a \<le> n \<Longrightarrow>
    \<exists>e s' lg'. withRetry_loop observed_sleep (observed operation) n a e0 (s, lg) = (Inl e, (s', lg'))
      \<and> map obs_delay lg' = map obs_delay lg
            @ concat (map (\<lambda>k. [None, Some (min (CONFIG_RETRY_DELAY * 2 ^ (k - 1)) 10000)]) [a..<n]) @ [None]
      \<and> last lg' = Attempt (Inl e)"
proof (induction "n - a" arbitrary: a e0 s lg)
  case 0
  then have an: "a = n" by simp
  obtain e s' where o: "observed operation (s, lg) = (Inl e, (s', lg @ [Attempt (Inl e)]))"
    using af by (rule observed_fail)
  show ?case using an o by (subst withRetry_loop.simps) simp
next
  case (Suc d)
  then have lt: "a < n" and d: "d = n - Suc a" by simp_all
  obtain e s' where o: "observed operation (s, lg) = (Inl e, (s', lg @ [Attempt (Inl e)]))"
    using af by (rule observed_fail)
  let ?dl = "min (CONFIG_RETRY_DELAY * 2 ^ (a - 1)) 10000"
  have sl: "observed_sleep ?dl (s', lg @ [Attempt (Inl e)]) = (s', lg @ [Attempt (Inl e), Delay ?dl])"
    by (simp add: observed_sleep_def)
  from Suc.hyps(1)[OF d, of e s' "lg @ [Attempt (Inl e), Delay ?dl]"] lt
  obtain e' s'' lg' where
    r: "withRetry_loop observed_sleep (observed operation) n (Suc a) e (s', lg @ [Attempt (Inl e), Delay ?dl]) = (Inl e', (s'', lg'))"
    and m: "map obs_delay lg' = map obs_delay (lg @ [Attempt (Inl e), Delay ?dl])
              @ concat (map (\<lambda>k. [None, Some (min (CONFIG_RETRY_DELAY * 2 ^ (k - 1)) 10000)]) [Suc a..<n]) @ [None]"
    and l: "last lg' = Attempt (Inl e')"
    by auto
  have "withRetry_loop observed_sleep (observed operation) n a e0 (s, lg) = (Inl e', (s'', lg'))"
    using lt o sl r by (subst withRetry_loop.simps) simp
  moreover have "map obs_delay lg' = map obs_delay lg
      @ concat (map (\<lambda>k. [None, Some (min (CONFIG_RETRY_DELAY * 2 ^ (k - 1)) 10000)]) [a..<n]) @ [None]"
    using m schedule_step[OF lt, of CONFIG_RETRY_DELAY 10000] by simp
  ultimately show ?case using l by blast
qed

lemma retryWithBackoff_loop_fails:
  assumes af: "always_fails operation"
  shows "i < n \<Longrightarrow>
    \<exists>e s' lg'. retryWithBackoff_loop observed_sleep (observed operation) n i (s, lg) = (Inl e, (s', lg'))
      \<and> map obs_delay lg' = map obs_delay lg
            @ concat (map (\<lambda>k. [None, Some (min (1000 * 2 ^ (k - 1)) 5000)]) [Suc i..<n]) @ [None]
      \<and> last lg' = Attempt (Inl e)"
proof (induction "n - Suc i" arbitrary: i s lg)
  case 0
  then have an: "i = n - 1" "i < n" by simp_all
  obtain e s' where o: "observed operation (s, lg) = (Inl e, (s', lg @ [Attempt (Inl e)]))"
    using af by (rule observed_fail)
  have "[Suc i..<n] = []" using an by simp
  then show ?case using an o by (subst retryWithBackoff_loop.simps) simp
next
  case (Suc d)
  then have lt: "Suc i < n" and d: "d = n - Suc (Suc i)" by simp_all
  obtain e s' where o: "observed operation (s, lg) = (Inl e, (s', lg @ [Attempt (Inl e)]))"
    using af by (rule observed_fail)
  let ?dl = "min (1000 * 2 ^ i) (5000::nat)"
  have sl: "observed_sleep ?dl (s', lg @ [Attempt (Inl e)]) = (s', lg @ [Attempt (Inl e), Delay ?dl])"
    by (simp add: observed_sleep_def)
  from Suc.hyps(1)[OF d lt, of s' "lg @ [Attempt (Inl e), Delay ?dl]"]
  obtain e' s'' lg' where
    r: "retryWithBackoff_loop observed_sleep (observed operation) n (Suc i) (s', lg @ [Attempt (Inl e), Delay ?dl]) = (Inl e', (s'', lg'))"
    and m: "map obs_delay lg' = map obs_delay (lg @ [Attempt (Inl e), Delay ?dl])
              @ concat (map (\<lambda>k. [None, Some (min (1000 * 2 ^ (k - 1)) 5000)]) [Suc (Suc i)..<n]) @ [None]"
    and l: "last lg' = Attempt (Inl e')"
    by auto
  have ne: "i \<noteq> n - 1" using lt by simp
  have "retryWithBackoff_loop observed_sleep (observed operation) n i (s, lg) = (Inl e', (s'', lg'))"
    using lt ne o sl r by (subst retryWithBackoff_loop.simps) simp
  moreover have "map obs_delay lg' = map obs_delay lg
      @ concat (map (\<lambda>k. [None, Some (min (1000 * 2 ^ (k - 1)) 5000)]) [Suc i..<n]) @ [None]"
    using m schedule_step[OF lt, of 1000 5000] by simp
  ultimately show ?case using l by blast
qed

lemma attempts_in_schedule:
  "length (filter (\<lambda>x. x = None) (backoff_schedule b c n)) = n"
proof -
  have "length (filter (\<lambda>x. x = None) (concat (map (\<lambda>k. [None, Some (min (b * 2 ^ (k - 1)) c)]) [a..<a + m]))) = m" for a m
    by (induction m) simp_all
  from this[of 1 "n - 1"] show ?thesis
    by (cases n) (simp_all add: backoff_schedule_def)
qed

text \<open>
  C5. An operation that fails on every attempt, retried with \<open>n > 0\<close> attempts allowed:
  both executors end in an error; the history is attempt, delay, attempt, ..., attempt
  with exactly \<open>n\<close> attempts, the delay after attempt \<open>k\<close> being
  \<open>min (1000 * 2 ^ (k - 1)) ceiling\<close> (ceiling 10000 for \<^verbatim>\<open>withRetry\<close>, 5000 for
  \<^verbatim>\<open>retryWithBackoff\<close>); and the error raised is the outcome of the last attempt.
\<close>

theorem C5_retry_exhaustion:
  assumes "always_fails operation" and "0 < n"
  shows "(\<exists>e s' lg.
            withRetry observed_sleep (observed operation) n (s, []) = (Inl e, (s', lg))
          \<and> map obs_delay lg = backoff_schedule CONFIG_RETRY_DELAY 10000 n
          \<and> length (filter (\<lambda>x. obs_delay x = None) lg) = n
          \<and> last lg = Attempt (Inl e))
       \<and> (\<exists>e s' lg.
            retryWithBackoff observed_sleep (observed operation) n (s, []) = (Inl e, (s', lg))
          \<and> map obs_delay lg = backoff_schedule 1000 5000 n
          \<and> length (filter (\<lambda>x. obs_delay x = None) lg) = n
          \<and> last lg = Attempt (Inl e))"
proof
  have cnt: "map obs_delay lg = backoff_schedule b c n \<Longrightarrow> length (filter (\<lambda>x. obs_delay x = None) lg) = n"
    for lg :: "'b obs list" and b c
    using attempts_in_schedule[of b c n] by (metis (mono_tags, lifting) filter_map length_map comp_apply filter_cong)
  from withRetry_loop_fails[OF assms(1), of 1 n Undefined s "[]"] assms(2)
  obtain e s' lg where
    "withRetry observed_sleep (observed operation) n (s, []) = (Inl e, (s', lg))"
    "map obs_delay lg = backoff_schedule CONFIG_RETRY_DELAY 10000 n"
    "last lg = Attempt (Inl e)"
    by (auto simp: withRetry_def backoff_schedule_def)
  then show "\<exists>e s' lg.
            withRetry observed_sleep (observed operation) n (s, []) = (Inl e, (s', lg))
          \<and> map obs_delay lg = backoff_schedule CONFIG_RETRY_DELAY 10000 n
          \<and> length (filter (\<lambda>x. obs_delay x = None) lg) = n
          \<and> last lg = Attempt (Inl e)"
    using cnt by blast
  from retryWithBackoff_loop_fails[OF assms(1), of 0 n s "[]"] assms(2)
  obtain e s' lg where
    "retryWithBackoff observed_sleep (observed operation) n (s, []) = (Inl e, (s', lg))"
    "map obs_delay lg = backoff_schedule 1000 5000 n"
    "last lg = Attempt (Inl e)"
    by (auto simp: retryWithBackoff_def backoff_schedule_def)
  then show "\<exists>e s' lg.
            retryWithBackoff observed_sleep (observed operation) n (s, []) = (Inl e, (s', lg))
          \<and> map obs_delay lg = backoff_schedule 1000 5000 n
          \<and> length (filter (\<lambda>x. obs_delay x = None) lg) = n
          \<and> last lg = Attempt (Inl e)"
    using cnt by blast
qed

theorem C5_retry_exhaustion_witness:
  "always_fails flaky \<and> (0::nat) < 3
   \<and> withRetry observed_sleep (observed flaky) 3 (0, [])
       = (Inl (Error ''failure 2''),
          (3, [Attempt (Inl (Error ''failure 0'')), Delay 1000,
               Attempt (Inl (Error ''failure 1'')), Delay 2000,
               Attempt (Inl (Error ''failure 2''))]))
   \<and> retryWithBackoff observed_sleep (observed flaky) 3 (0, [])
       = (Inl (Error ''failure 2''),
          (3, [Attempt (Inl (Error ''failure 0'')), Delay 1000,
               Attempt (Inl (Error ''failure 1'')), Delay 2000,
               Attempt (Inl (Error ''failure 2''))]))
   \<and> backoff_schedule 1000 5000 5 = [None, Some 1000, None, Some 2000, None, Some 4000, None, Some 5000, None]"
proof -
  have af: "always_fails flaky" by (simp add: always_fails_def flaky_def)
  have a: "withRetry observed_sleep (observed flaky) 3 (0, [])
       = (Inl (Error ''failure 2''),
          (3, [Attempt (Inl (Error ''failure 0'')), Delay 1000,
               Attempt (Inl (Error ''failure 1'')), Delay 2000,
               Attempt (Inl (Error ''failure 2''))]))"
    by (simp add: withRetry_def observed_def observed_sleep_def flaky_def CONFIG_RETRY_DELAY_def digit_char_def)
  have b: "retryWithBackoff observed_sleep (observed flaky) 3 (0, [])
       = (Inl (Error ''failure 2''),
          (3, [Attempt (Inl (Error ''failure 0'')), Delay 1000,
               Attempt (Inl (Error ''failure 1'')), Delay 2000,
               Attempt (Inl (Error ''failure 2''))]))"
    by (simp add: retryWithBackoff_def observed_def observed_sleep_def flaky_def digit_char_def)
  have c: "backoff_schedule 1000 5000 5 = [None, Some 1000, None, Some 2000, None, Some 4000, None, Some 5000, None]"
    by (simp add: backoff_schedule_def upt_conv_Cons)
  from C5_retry_exhaustion[OF af, of 3 0] a b c af show ?thesis by simp
qed

section \<open>The matcher decides the language\<close>

lemma star_cons_split:
  "x \<in> star A \<Longrightarrow> x = c # w \<Longrightarrow> \<exists>u v. w = u @ v \<and> c # u \<in> A \<and> v \<in> star A"
proof (induction arbitrary: c w rule: star.induct)
  case star_nil
  then show ?case by simp
next
  case (star_app u v)
  show ?case
  proof (cases u)
    case Nil
    with star_app show ?thesis by simp
  next
    case (Cons a u')
    with star_app.prems have "c = a" "w = u' @ v" by simp_all
    with Cons star_app.hyps show ?thesis by blast
  qed
qed

lemma star_cons_iff:
  "c # w \<in> star A \<longleftrightarrow> (\<exists>u v. w = u @ v \<and> c # u \<in> A \<and> v \<in> star A)"
proof
  assume "c # w \<in> star A"
  then show "\<exists>u v. w = u @ v \<and> c # u \<in> A \<and> v \<in> star A"
    by (rule star_cons_split) simp
next
  assume "\<exists>u v. w = u @ v \<and> c # u \<in> A \<and> v \<in> star A"
  then obtain u v where "w = u @ v" "c # u \<in> A" "v \<in> star A" by blast
  then show "c # w \<in> star A" using star_app[of "c # u" A v] by simp
qed

lemma lang_Seq_Sym: "lang (Seq (Sym P) r) = {c # v | c v. P c \<and> v \<in> lang r}"
proof (intro set_eqI iffI)
  fix w assume "w \<in> lang (Seq (Sym P) r)"
  then show "w \<in> {c # v | c v. P c \<and> v \<in> lang r}" by auto
next
  fix w assume "w \<in> {c # v | c v. P c \<and> v \<in> lang r}"
  then obtain c v where w: "w = [c] @ v" and "P c" "v \<in> lang r" by auto
  then have "[c] \<in> lang (Sym P)" by simp
  with \<open>v \<in> lang r\<close> show "w \<in> lang (Seq (Sym P) r)" unfolding w by (simp del: append.simps) blast
qed

lemma nullable_lang: "nullable r \<longleftrightarrow> [] \<in> lang r"
  by (induction r) (auto intro: star_nil)

lemma deriv_lang: "w \<in> lang (deriv c r) \<longleftrightarrow> c # w \<in> lang r"
proof (induction r arbitrary: w)
  case (Seq r s)
  show ?case
  proof
    assume "w \<in> lang (deriv c (Seq r s))"
    then consider u v where "w = u @ v" "u \<in> lang (deriv c r)" "v \<in> lang s"
      | "nullable r" "w \<in> lang (deriv c s)"
      by (auto split: if_splits)
    then show "c # w \<in> lang (Seq r s)"
    proof cases
      case 1
      then have "c # u \<in> lang r" using Seq.IH(1) by simp
      with 1 show ?thesis by (metis (mono_tags, lifting) lang.simps(5) mem_Collect_eq append_Cons)
    next
      case 2
      then have "[] \<in> lang r" "c # w \<in> lang s" using Seq.IH(2) nullable_lang by simp_all
      then show ?thesis by (metis (mono_tags, lifting) lang.simps(5) mem_Collect_eq append_Nil)
    qed
  next
    assume "c # w \<in> lang (Seq r s)"
    then obtain u v where uv: "c # w = u @ v" "u \<in> lang r" "v \<in> lang s" by auto
    show "w \<in> lang (deriv c (Seq r s))"
    proof (cases u)
      case Nil
      with uv have "nullable r" "w \<in> lang (deriv c s)" using Seq.IH(2) nullable_lang by simp_all
      then show ?thesis by simp
    next
      case (Cons a u')
      with uv have "u' \<in> lang (deriv c r)" "w = u' @ v" using Seq.IH(1) by simp_all
      with uv show ?thesis by auto
    qed
  qed
next
  case (Star r)
  show ?case
  proof
    assume "w \<in> lang (deriv c (Star r))"
    then obtain u v where "w = u @ v" "u \<in> lang (deriv c r)" "v \<in> star (lang r)" by auto
    then show "c # w \<in> lang (Star r)" using Star.IH star_cons_iff[of c w "lang r"] by auto
  next
    assume "c # w \<in> lang (Star r)"
    then obtain u v where "w = u @ v" "c # u \<in> lang r" "v \<in> star (lang r)"
      using star_cons_iff[of c w "lang r"] by auto
    then show "w \<in> lang (deriv c (Star r))" using Star.IH by auto
  qed
qed auto

lemma rx_test_lang: "rx_test r s \<longleftrightarrow> s \<in> lang r"
  by (induction s arbitrary: r) (simp_all add: nullable_lang deriv_lang)

lemma star_Sym: "star {[c] | c. P c} = {w. \<forall>c \<in> set w. P c}"
proof (intro set_eqI iffI)
  fix w assume "w \<in> star {[c] | c. P c}"
  then show "w \<in> {w. \<forall>c \<in> set w. P c}"
    by (induction rule: star.induct) auto
next
  fix w assume "w \<in> {w. \<forall>c \<in> set w. P c}"
  then have "\<forall>c \<in> set w. P c" by simp
  then show "w \<in> star {[c] | c. P c}"
  proof (induction w)
    case Nil
    show ?case by (rule star_nil)
  next
    case (Cons a w)
    then have "[a] \<in> {[c] | c. P c}" "w \<in> star {[c] | c. P c}" by auto
    then have "[a] @ w \<in> star {[c] | c. P c}" by (rule star_app)
    then show ?case by simp
  qed
qed

lemma lang_Plus_Sym: "lang (Plus (Sym P)) = {w. w \<noteq> [] \<and> (\<forall>c \<in> set w. P c)}"
proof -
  have "lang (Plus (Sym P)) = {c # v | c v. P c \<and> (\<forall>x \<in> set v. P x)}"
    unfolding Plus_def lang_Seq_Sym by (simp add: star_Sym)
  also have "\<dots> = {w. w \<noteq> [] \<and> (\<forall>c \<in> set w. P c)}"
  proof (intro set_eqI iffI)
    fix w assume "w \<in> {w. w \<noteq> [] \<and> (\<forall>c \<in> set w. P c)}"
    then obtain a v where "w = a # v" "P a" "\<forall>x \<in> set v. P x" by (cases w) auto
    then show "w \<in> {c # v | c v. P c \<and> (\<forall>x \<in> set v. P x)}" by auto
  qed auto
  finally show ?thesis .
qed

lemma lang_lit_i: "lang (lit_i s) = {w. map ascii_upper w = map ascii_upper s}"
proof (induction s)
  case Nil
  show ?case by (simp add: lit_i_def)
next
  case (Cons a s)
  have "lit_i (a # s) = Seq (Sym (\<lambda>x. ascii_upper x = ascii_upper a)) (lit_i s)"
    by (simp add: lit_i_def)
  then have "lang (lit_i (a # s)) = {c # v | c v. ascii_upper c = ascii_upper a \<and> map ascii_upper v = map ascii_upper s}"
    using Cons by (simp only: lang_Seq_Sym) simp
  also have "\<dots> = {w. map ascii_upper w = map ascii_upper (a # s)}"
  proof (intro set_eqI iffI)
    fix w assume "w \<in> {w. map ascii_upper w = map ascii_upper (a # s)}"
    then obtain c v where "w = c # v" "ascii_upper c = ascii_upper a" "map ascii_upper v = map ascii_upper s"
      by (cases w) auto
    then show "w \<in> {c # v | c v. ascii_upper c = ascii_upper a \<and> map ascii_upper v = map ascii_upper s}" by auto
  qed auto
  finally show ?case .
qed

section \<open>Key validation and key parsing\<close>

lemma ascii_upper_cases: "ascii_upper c = c \<or> ascii_upper c \<in> set ''ABCDEFGHIJKLMNOPQRSTUVWXYZ''"
  unfolding ascii_upper_def by (simp split: option.split)

lemma ascii_upper_slash: "ascii_upper c = CHR ''/'' \<longleftrightarrow> c = CHR ''/''"
proof
  assume "ascii_upper c = CHR ''/''"
  with ascii_upper_cases[of c] show "c = CHR ''/''" by auto
next
  assume "c = CHR ''/''"
  then show "ascii_upper c = CHR ''/''" by (simp add: ascii_upper_def)
qed

lemma ascii_upper_dot: "ascii_upper c = CHR ''.'' \<longleftrightarrow> c = CHR ''.''"
proof
  assume "ascii_upper c = CHR ''.''"
  with ascii_upper_cases[of c] show "c = CHR ''.''" by auto
next
  assume "c = CHR ''.''"
  then show "ascii_upper c = CHR ''.''" by (simp add: ascii_upper_def)
qed

lemma upper_keeps_char:
  assumes "map ascii_upper p = u" "ascii_upper s = s" "s \<notin> set u"
  shows "s \<notin> set p"
proof
  assume "s \<in> set p"
  then have "ascii_upper s \<in> set (map ascii_upper p)" by simp
  with assms show False by simp
qed

lemma split_on_none: "sep \<notin> set a \<Longrightarrow> split_on sep a = [a]"
  by (induction a) auto

lemma split_on_first: "sep \<notin> set a \<Longrightarrow> split_on sep (a @ sep # b) = a # split_on sep b"
  by (induction a) auto

lemma path_basename_plain:
  assumes a: "CHR ''/'' \<notin> set b"
  shows "path_basename b = b"
proof -
  have d: "dropWhile (\<lambda>c. c = CHR ''/'') (rev b) = rev b"
  proof (cases "rev b")
    case Nil
    then show ?thesis by simp
  next
    case (Cons h t)
    then have "h \<in> set (rev b)" by simp
    then have "h \<noteq> CHR ''/''" using a by auto
    then show ?thesis using Cons by simp
  qed
  have t: "takeWhile (\<lambda>c. c \<noteq> CHR ''/'') (rev b) = rev b"
    using a by (simp add: takeWhile_eq_all_conv) blast
  show ?thesis unfolding path_basename_def d t by simp
qed

lemma path_parse_name_ext:
  assumes "f \<noteq> []" "CHR ''/'' \<notin> set f" "CHR ''/'' \<notin> set x" "CHR ''.'' \<notin> set x" "x \<noteq> []"
  shows "path_parse_name (f @ ''.'' @ x) = f"
proof -
  let ?b = "f @ ''.'' @ x"
  have b: "path_basename ?b = ?b" using assms by (intro path_basename_plain) auto
  have tw: "takeWhile (\<lambda>c. c \<noteq> CHR ''.'') (rev ?b) = rev x"
  proof -
    have "takeWhile (\<lambda>c. c \<noteq> CHR ''.'') (rev x @ CHR ''.'' # rev f) = takeWhile (\<lambda>c. c \<noteq> CHR ''.'') (rev x)"
      by (rule takeWhile_tail) simp
    also have "\<dots> = rev x" using assms(4) by (simp add: takeWhile_eq_all_conv) blast
    finally show ?thesis by simp
  qed
  have sd: "length ?b - Suc (length (rev x)) = length f" by simp
  have ne: "?b \<noteq> ''..''"
  proof
    assume "?b = ''..''"
    then have "length ?b = 2" by simp
    with assms(1,5) show False by (cases f; cases x) auto
  qed
  show ?thesis
    unfolding path_parse_name_def b Let_def tw sd using assms(1) ne by simp
qed

lemma upper_snoc_slash:
  assumes "map ascii_upper p = u @ ''/''"
  obtains p0 where "p = p0 @ ''/''" "map ascii_upper p0 = u"
proof -
  from assms have "p \<noteq> []" by auto
  then have p: "p = butlast p @ [last p]" by simp
  with assms have "map ascii_upper (butlast p) @ [ascii_upper (last p)] = u @ ''/''"
    by (metis list.simps(8,9) map_append)
  then have "map ascii_upper (butlast p) = u" "ascii_upper (last p) = CHR ''/''" by simp_all
  with p ascii_upper_slash show thesis by (intro that[of "butlast p"]) auto
qed

lemma upper_cons_slash:
  assumes "map ascii_upper v = CHR ''/'' # u"
  obtains v0 where "v = CHR ''/'' # v0" "map ascii_upper v0 = u"
  using assms ascii_upper_slash by (cases v) auto

lemma ext_facts:
  assumes "map ascii_upper x \<in> {''MP4'', ''MOV'', ''AVI''}"
  shows "x \<noteq> []" "CHR ''/'' \<notin> set x" "CHR ''.'' \<notin> set x"
proof -
  show "x \<noteq> []" using assms by auto
  have s: "ascii_upper CHR ''/'' = CHR ''/''" "ascii_upper CHR ''.'' = CHR ''.''"
    by (simp_all add: ascii_upper_def)
  have n: "CHR ''/'' \<notin> set (map ascii_upper x)" "CHR ''.'' \<notin> set (map ascii_upper x)"
    using assms by auto
  show "CHR ''/'' \<notin> set x" using refl s(1) n(1) by (rule upper_keeps_char)
  show "CHR ''.'' \<notin> set x" using refl s(2) n(2) by (rule upper_keeps_char)
qed

lemma not_word: "\<not> is_word CHR ''/''" "\<not> is_word CHR ''.''"
  by (simp_all add: is_word_def is_alnum_def)

lemma word_no_sep:
  assumes "\<forall>ch \<in> set w. is_word ch \<or> ch = CHR ''-''"
  shows "CHR ''/'' \<notin> set w" "CHR ''.'' \<notin> set w"
  using assms not_word by fastforce+

lemma accepted_key_parts:
  assumes "accepted_key key c f"
  shows "generateS3Paths key = \<lparr>courseId = Some c, filename = f\<rparr>"
proof -
  from assms obtain p v x where H:
    "key = p @ c @ v @ f @ ''.'' @ x
        \<and> map ascii_upper p = ''COURSES/'' \<and> map ascii_upper v = ''/VIDEOS/''
        \<and> map ascii_upper x \<in> {''MP4'', ''MOV'', ''AVI''}
        \<and> c \<noteq> [] \<and> f \<noteq> []
        \<and> (\<forall>ch \<in> set (c @ f). is_word ch \<or> ch = CHR ''-'')"
    unfolding accepted_key_def by (elim exE) (rule that)
  note key = H[THEN conjunct1]
    and p = H[THEN conjunct2, THEN conjunct1]
    and v = H[THEN conjunct2, THEN conjunct2, THEN conjunct1]
    and x = H[THEN conjunct2, THEN conjunct2, THEN conjunct2, THEN conjunct1]
    and ne = H[THEN conjunct2, THEN conjunct2, THEN conjunct2, THEN conjunct2, THEN conjunct1]
      H[THEN conjunct2, THEN conjunct2, THEN conjunct2, THEN conjunct2, THEN conjunct2, THEN conjunct1]
    and w = H[THEN conjunct2, THEN conjunct2, THEN conjunct2, THEN conjunct2, THEN conjunct2, THEN conjunct2]
  have s: "ascii_upper CHR ''/'' = CHR ''/''" by (simp add: ascii_upper_def)
  from p have "map ascii_upper p = ''COURSES'' @ ''/''" by simp
  then obtain p0 where p0: "p = p0 @ ''/''" "map ascii_upper p0 = ''COURSES''"
    by (rule upper_snoc_slash)
  from v obtain v1 where v1: "v = CHR ''/'' # v1" "map ascii_upper v1 = ''VIDEOS/''"
    by (rule upper_cons_slash)
  from v1(2) have "map ascii_upper v1 = ''VIDEOS'' @ ''/''" by simp
  then obtain v0 where v0: "v1 = v0 @ ''/''" "map ascii_upper v0 = ''VIDEOS''"
    by (rule upper_snoc_slash)
  have np: "CHR ''/'' \<notin> set p0" using p0(2) s by (rule upper_keeps_char) simp
  have nv: "CHR ''/'' \<notin> set v0" using v0(2) s by (rule upper_keeps_char) simp
  have nc: "CHR ''/'' \<notin> set c" and nf: "CHR ''/'' \<notin> set f"
    using w word_no_sep(1)[of c] word_no_sep(1)[of f] by auto
  note xf = ext_facts[OF x]
  have nb: "CHR ''/'' \<notin> set (f @ ''.'' @ x)" using nf xf by auto
  have k: "key = p0 @ CHR ''/'' # (c @ CHR ''/'' # (v0 @ CHR ''/'' # (f @ ''.'' @ x)))"
    by (simp add: key p0 v1 v0)
  have sp: "split_on CHR ''/'' key = [p0, c, v0, f @ ''.'' @ x]"
    unfolding k using np nc nv nb by (simp add: split_on_first split_on_none del: split_on.simps)
  have "path_parse_name (f @ ''.'' @ x) = f"
    using ne(2) nf xf by (intro path_parse_name_ext) auto
  then show ?thesis by (simp add: generateS3Paths_def sp Let_def)
qed

lemma upper_literals:
  "map ascii_upper ''courses/'' = ''COURSES/''" "map ascii_upper ''/videos/'' = ''/VIDEOS/''"
  "map ascii_upper ''.'' = ''.''" "map ascii_upper ''mp4'' = ''MP4''"
  "map ascii_upper ''mov'' = ''MOV''" "map ascii_upper ''avi'' = ''AVI''"
  by (simp_all add: ascii_upper_def)

lemma lang_SeqE:
  assumes "w \<in> lang (Seq r s)"
  obtains u v where "w = u @ v" "u \<in> lang r" "v \<in> lang s"
  using assms by auto

lemma lang_SeqI: "a \<in> lang r \<Longrightarrow> b \<in> lang s \<Longrightarrow> a @ b \<in> lang (Seq r s)"
  by auto

lemma keyPattern_accepts:
  "rx_test keyPattern key \<longleftrightarrow> (\<exists>c f. accepted_key key c f)"
proof
  let ?W = "Plus (Sym (\<lambda>c. is_word c \<or> c = CHR ''-''))"
  let ?X = "Alt (lit_i ''mp4'') (Alt (lit_i ''mov'') (lit_i ''avi''))"
  assume "rx_test keyPattern key"
  then have "key \<in> lang (Seq (lit_i ''courses/'') (Seq ?W (Seq (lit_i ''/videos/'') (Seq ?W (Seq (lit_i ''.'') ?X)))))"
    by (simp only: rx_test_lang keyPattern_def)
  then obtain p r1 where 1: "key = p @ r1" "p \<in> lang (lit_i ''courses/'')"
    and r1: "r1 \<in> lang (Seq ?W (Seq (lit_i ''/videos/'') (Seq ?W (Seq (lit_i ''.'') ?X))))"
    by (rule lang_SeqE)
  from r1 obtain c r2 where 2: "r1 = c @ r2" "c \<in> lang ?W"
    and r2: "r2 \<in> lang (Seq (lit_i ''/videos/'') (Seq ?W (Seq (lit_i ''.'') ?X)))"
    by (rule lang_SeqE)
  from r2 obtain v r3 where 3: "r2 = v @ r3" "v \<in> lang (lit_i ''/videos/'')"
    and r3: "r3 \<in> lang (Seq ?W (Seq (lit_i ''.'') ?X))"
    by (rule lang_SeqE)
  from r3 obtain f r4 where 4: "r3 = f @ r4" "f \<in> lang ?W"
    and r4: "r4 \<in> lang (Seq (lit_i ''.'') ?X)"
    by (rule lang_SeqE)
  from r4 obtain d x where 5: "r4 = d @ x" "d \<in> lang (lit_i ''.'')" and x: "x \<in> lang ?X"
    by (rule lang_SeqE)
  have p: "map ascii_upper p = ''COURSES/''" using 1(2) by (simp only: lang_lit_i upper_literals mem_Collect_eq)
  have v: "map ascii_upper v = ''/VIDEOS/''" using 3(2) by (simp only: lang_lit_i upper_literals mem_Collect_eq)
  have "map ascii_upper d = ''.''" using 5(2) by (simp only: lang_lit_i upper_literals mem_Collect_eq)
  then have d: "d = ''.''" using ascii_upper_dot by (cases d) auto
  have xx: "map ascii_upper x \<in> {''MP4'', ''MOV'', ''AVI''}"
    using x by (simp only: lang.simps lang_lit_i upper_literals mem_Collect_eq Un_iff insert_iff) blast
  have c: "c \<noteq> []" "\<forall>ch \<in> set c. is_word ch \<or> ch = CHR ''-''" using 2(2) by (simp_all add: lang_Plus_Sym)
  have f: "f \<noteq> []" "\<forall>ch \<in> set f. is_word ch \<or> ch = CHR ''-''" using 4(2) by (simp_all add: lang_Plus_Sym)
  have "key = p @ c @ v @ f @ ''.'' @ x" by (simp add: 1 2 3 4 5 d)
  moreover have "\<forall>ch \<in> set (c @ f). is_word ch \<or> ch = CHR ''-''" using c f by auto
  ultimately have "accepted_key key c f"
    unfolding accepted_key_def using p v xx c(1) f(1)
    by (intro exI[of _ p] exI[of _ v] exI[of _ x] conjI)
  then show "\<exists>c f. accepted_key key c f" by (intro exI)
next
  assume "\<exists>c f. accepted_key key c f"
  then obtain c f p v x where H:
    "key = p @ c @ v @ f @ ''.'' @ x
        \<and> map ascii_upper p = ''COURSES/'' \<and> map ascii_upper v = ''/VIDEOS/''
        \<and> map ascii_upper x \<in> {''MP4'', ''MOV'', ''AVI''}
        \<and> c \<noteq> [] \<and> f \<noteq> []
        \<and> (\<forall>ch \<in> set (c @ f). is_word ch \<or> ch = CHR ''-'')"
    unfolding accepted_key_def by (elim exE) (rule that)
  note key = H[THEN conjunct1]
    and p = H[THEN conjunct2, THEN conjunct1]
    and v = H[THEN conjunct2, THEN conjunct2, THEN conjunct1]
    and x = H[THEN conjunct2, THEN conjunct2, THEN conjunct2, THEN conjunct1]
    and ne = H[THEN conjunct2, THEN conjunct2, THEN conjunct2, THEN conjunct2, THEN conjunct1]
      H[THEN conjunct2, THEN conjunct2, THEN conjunct2, THEN conjunct2, THEN conjunct2, THEN conjunct1]
    and w = H[THEN conjunct2, THEN conjunct2, THEN conjunct2, THEN conjunct2, THEN conjunct2, THEN conjunct2]
  have 1: "p \<in> lang (lit_i ''courses/'')" using p by (simp only: lang_lit_i upper_literals mem_Collect_eq)
  have 2: "c \<in> lang (Plus (Sym (\<lambda>c. is_word c \<or> c = CHR ''-'')))" using ne w by (simp add: lang_Plus_Sym)
  have 3: "v \<in> lang (lit_i ''/videos/'')" using v by (simp only: lang_lit_i upper_literals mem_Collect_eq)
  have 4: "f \<in> lang (Plus (Sym (\<lambda>c. is_word c \<or> c = CHR ''-'')))" using ne w by (simp add: lang_Plus_Sym)
  have 5: "''.'' \<in> lang (lit_i ''.'')" by (simp only: lang_lit_i mem_Collect_eq)
  have 6: "x \<in> lang (Alt (lit_i ''mp4'') (Alt (lit_i ''mov'') (lit_i ''avi'')))"
    using x by (simp only: lang.simps lang_lit_i upper_literals mem_Collect_eq Un_iff insert_iff empty_iff) blast
  have "key \<in> lang keyPattern"
    unfolding key keyPattern_def by (intro lang_SeqI 1 2 3 4 5 6)
  then show "rx_test keyPattern key" by (simp only: rx_test_lang)
qed

section \<open>URL signing\<close>

lemma isValidKey_iff:
  "isValidKey key \<longleftrightarrow>
     key \<noteq> [] \<and> (\<forall>c \<in> set key. is_alnum c \<or> c = CHR ''-'' \<or> c = CHR ''_'' \<or> c = CHR ''/'')"
  by (auto simp: isValidKey_def rx_test_lang lang_Plus_Sym)

text \<open>
  C10. \<^verbatim>\<open>VideoService.generateUrl\<close>: a key that is empty or holds a character outside
  letters, digits, \<^verbatim>\<open>-\<close>, \<^verbatim>\<open>_\<close> and \<^verbatim>\<open>/\<close> is answered with the invalid-key error and the state
  is untouched (the signer is not called, the clock is not read); and whenever the
  answer is a success, \<^verbatim>\<open>expiresIn\<close> is the requested expiry, 3600 when none was given, and
  \<^verbatim>\<open>expiresAt\<close> is the clock value read by \<^verbatim>\<open>getExpiryDate\<close> (the second read of the request) plus
  \<^verbatim>\<open>expiresIn\<close> seconds.
\<close>

theorem C10_generateUrl:
  "((key = [] \<or> (\<exists>c \<in> set key. \<not> (is_alnum c \<or> c = CHR ''-'' \<or> c = CHR ''_'' \<or> c = CHR ''/''))) \<longrightarrow>
      generateUrl e key x st
        = (\<lparr>success = False, data = None, error = Some ''Invalid videoKey format''\<rparr>, st))
   \<and> (success (fst (generateUrl e key x st)) \<longrightarrow>
        (\<exists>d. data (fst (generateUrl e key x st)) = Some d
           \<and> expiresIn d = (case x of None \<Rightarrow> 3600 | Some v \<Rightarrow> v)
           \<and> expiresAt d = Date_now e (Suc (clock_reads st)) + expiresIn d * 1000
           \<and> isValidKey key
           \<and> length (signer_calls (snd (generateUrl e key x st))) = Suc (length (signer_calls st))))"
proof (intro conjI impI)
  assume "key = [] \<or> (\<exists>c \<in> set key. \<not> (is_alnum c \<or> c = CHR ''-'' \<or> c = CHR ''_'' \<or> c = CHR ''/''))"
  then have "\<not> isValidKey key" unfolding isValidKey_iff by blast
  then show "generateUrl e key x st
        = (\<lparr>success = False, data = None, error = Some ''Invalid videoKey format''\<rparr>, st)"
    by (simp add: generateUrl_def Let_def)
next
  assume ok: "success (fst (generateUrl e key x st))"
  then show "\<exists>d. data (fst (generateUrl e key x st)) = Some d
           \<and> expiresIn d = (case x of None \<Rightarrow> 3600 | Some v \<Rightarrow> v)
           \<and> expiresAt d = Date_now e (Suc (clock_reads st)) + expiresIn d * 1000
           \<and> isValidKey key
           \<and> length (signer_calls (snd (generateUrl e key x st))) = Suc (length (signer_calls st))"
    by (auto simp: generateUrl_def Let_def DEFAULT_EXPIRES_IN_def generateSignedUrl_def getExpiryDate_def
        bindE_def lift_def read_clock_def returnE_def toISOString_def
        split: sum.splits prod.splits if_splits option.splits)
qed

lemma dispatchRecord_s3_record:
  "dispatchRecord e (s3_record (b, key)) =
     (if \<not> validateS3Key (Some (JStr key)) then returnE ()
      else retryWithBackoff sleep (launchEcsTask e (Some (JStr b)) (Some (JStr key))) MAX_RETRIES)"
  by (simp add: dispatchRecord_def destructure_def s3_record_def bindS_def bindE_def lift_def fun_eq_iff)

text \<open>
  C9 (as amended). \<^verbatim>\<open>validateS3Key\<close> accepts exactly the keys made of a spelling of
  \<^verbatim>\<open>courses/\<close>, a course, a spelling of \<^verbatim>\<open>/videos/\<close>, a file name, a dot and a spelling of
  \<^verbatim>\<open>mp4\<close>, \<^verbatim>\<open>mov\<close> or \<^verbatim>\<open>avi\<close>, every letter in either case, course and file name being
  non-empty runs of letters, digits, \<^verbatim>\<open>_\<close> and \<^verbatim>\<open>-\<close>; on such a key \<^verbatim>\<open>generateS3Paths\<close> returns
  exactly that course and that file name; and a record whose key is not accepted is
  skipped with nothing sent to the launcher.
\<close>

theorem C9_source_key:
  "(validateS3Key (Some (JStr key)) \<longleftrightarrow> (\<exists>c f. accepted_key key c f))
   \<and> (accepted_key key c f \<longrightarrow> generateS3Paths key = \<lparr>courseId = Some c, filename = f\<rparr>)
   \<and> (\<not> validateS3Key (Some (JStr key)) \<longrightarrow>
        dispatchRecord e (s3_record (b, key)) tr = (Inr (), tr))"
proof (intro conjI impI)
  show "validateS3Key (Some (JStr key)) \<longleftrightarrow> (\<exists>c f. accepted_key key c f)"
    by (simp only: validateS3Key_def js_toString_def option.case json_toString.simps keyPattern_accepts)
  show "generateS3Paths key = \<lparr>courseId = Some c, filename = f\<rparr>" if "accepted_key key c f"
    using that by (rule accepted_key_parts)
  show "dispatchRecord e (s3_record (b, key)) tr = (Inr (), tr)" if "\<not> validateS3Key (Some (JStr key))"
    using that by (simp add: dispatchRecord_s3_record returnE_def)
qed

lemma accepted_examples:
  "accepted_key ''courses/c1/videos/v.mp4'' ''c1'' ''v''"
  "accepted_key ''COURSES/c1/VIDEOS/v.mp4'' ''c1'' ''v''"
proof -
  have w: "\<forall>ch \<in> set (''c1'' @ ''v''). is_word ch \<or> ch = CHR ''-''"
    by (simp add: is_word_def is_alnum_def)
  have u: "map ascii_upper ''mp4'' \<in> {''MP4'', ''MOV'', ''AVI''}" by (simp only: upper_literals insertI1)
  have "''courses/c1/videos/v.mp4'' = ''courses/'' @ ''c1'' @ ''/videos/'' @ ''v'' @ ''.'' @ ''mp4''" by simp
  then show "accepted_key ''courses/c1/videos/v.mp4'' ''c1'' ''v''"
    unfolding accepted_key_def using w u upper_literals(1,2)
    by (intro exI[of _ "''courses/''"] exI[of _ "''/videos/''"] exI[of _ "''mp4''"] conjI) simp_all
  have "''COURSES/c1/VIDEOS/v.mp4'' = ''COURSES/'' @ ''c1'' @ ''/VIDEOS/'' @ ''v'' @ ''.'' @ ''mp4''" by simp
  moreover have "map ascii_upper ''COURSES/'' = ''COURSES/''" "map ascii_upper ''/VIDEOS/'' = ''/VIDEOS/''"
    by (simp_all add: ascii_upper_def)
  ultimately show "accepted_key ''COURSES/c1/VIDEOS/v.mp4'' ''c1'' ''v''"
    unfolding accepted_key_def using w u
    by (intro exI[of _ "''COURSES/''"] exI[of _ "''/VIDEOS/''"] exI[of _ "''mp4''"] conjI) simp_all
qed

theorem C9_source_key_witness:
  "validateS3Key (Some (JStr ''courses/c1/videos/v.mp4''))
   \<and> accepted_key ''courses/c1/videos/v.mp4'' ''c1'' ''v''
   \<and> generateS3Paths ''courses/c1/videos/v.mp4'' = \<lparr>courseId = Some ''c1'', filename = ''v''\<rparr>
   \<and> \<not> validateS3Key (Some (JStr ''courses/c1/videos/v.exe''))
   \<and> dispatchRecord calm (s3_record (''uploads'', ''courses/c1/videos/v.exe'')) [] = (Inr (), [])"
proof -
  have n: "\<not> validateS3Key (Some (JStr ''courses/c1/videos/v.exe''))"
    by code_simp
  from C9_source_key[of "''courses/c1/videos/v.mp4''" "''c1''" "''v''"]
    C9_source_key[of "''courses/c1/videos/v.exe''" _ _ calm "''uploads''" "[]"]
    accepted_examples(1) n
  show ?thesis by blast
qed

text \<open>
  The claim as stated fails: a key spelled with upper-case path segments is not of the
  shape \<^verbatim>\<open>courses/{courseId}/videos/{filename}.{ext}\<close>, yet it is accepted and a task is
  launched for it.
\<close>

theorem C9_upper_case_key_counterexample:
  "\<not> spec_source_key ''COURSES/c1/VIDEOS/v.mp4''
   \<and> validateS3Key (Some (JStr ''COURSES/c1/VIDEOS/v.mp4''))
   \<and> dispatchRecord calm (s3_record (''uploads'', ''COURSES/c1/VIDEOS/v.mp4'')) []
       = (Inr (), [Sent (RunTask (Some (JStr ''uploads'')) (Some (JStr ''COURSES/c1/VIDEOS/v.mp4''))) True])"
proof (intro conjI)
  show "\<not> spec_source_key ''COURSES/c1/VIDEOS/v.mp4''"
    by (simp add: spec_source_key_def)
  show v: "validateS3Key (Some (JStr ''COURSES/c1/VIDEOS/v.mp4''))"
    using accepted_examples(2)
    by (simp only: validateS3Key_def js_toString_def option.case json_toString.simps keyPattern_accepts) blast
  show "dispatchRecord calm (s3_record (''uploads'', ''COURSES/c1/VIDEOS/v.mp4'')) []
       = (Inr (), [Sent (RunTask (Some (JStr ''uploads'')) (Some (JStr ''COURSES/c1/VIDEOS/v.mp4''))) True])"
    using v by (simp add: dispatchRecord_s3_record retryWithBackoff_def MAX_RETRIES_def
        launchEcsTask_def send_def calm_def)
qed

theorem C10_generateUrl_witness:
  "generateUrl signing ''c1/hls/v 1'' (Some 60) \<lparr>clock_reads = 0, signer_calls = []\<rparr>
     = (\<lparr>success = False, data = None, error = Some ''Invalid videoKey format''\<rparr>,
        \<lparr>clock_reads = 0, signer_calls = []\<rparr>)
   \<and> success (fst (generateUrl signing ''c1/hls/v'' (Some 60) \<lparr>clock_reads = 0, signer_calls = []\<rparr>))
   \<and> data (fst (generateUrl signing ''c1/hls/v'' (Some 60) \<lparr>clock_reads = 0, signer_calls = []\<rparr>))
       = Some \<lparr>url = ''https://cdn.example/c1/hls/v?Signature=s'', expiresIn = 60, expiresAt = 1060001\<rparr>
   \<and> data (fst (generateUrl signing ''c1/hls/v'' None \<lparr>clock_reads = 0, signer_calls = []\<rparr>))
       = Some \<lparr>url = ''https://cdn.example/c1/hls/v?Signature=s'', expiresIn = 3600, expiresAt = 4600001\<rparr>"
proof -
  let ?st = "\<lparr>clock_reads = 0, signer_calls = []\<rparr>"
  have bad: "\<exists>c \<in> set ''c1/hls/v 1''. \<not> (is_alnum c \<or> c = CHR ''-'' \<or> c = CHR ''_'' \<or> c = CHR ''/'')"
    by (simp add: is_alnum_def)
  have ok: "isValidKey ''c1/hls/v''" by (simp add: isValidKey_iff is_alnum_def)
  have a: "generateUrl signing ''c1/hls/v'' (Some 60) ?st
     = (\<lparr>success = True, data = Some \<lparr>url = ''https://cdn.example/c1/hls/v?Signature=s'', expiresIn = 60, expiresAt = 1060001\<rparr>, error = None\<rparr>,
        \<lparr>clock_reads = 2, signer_calls = [(''https://cdn.example/c1/hls/v'', 1060000)]\<rparr>)"
    using ok by (simp add: generateUrl_def generateSignedUrl_def getExpiryDate_def bindE_def lift_def
        read_clock_def returnE_def toISOString_def valid_time_def signing_def)
  have b: "generateUrl signing ''c1/hls/v'' None ?st
     = (\<lparr>success = True, data = Some \<lparr>url = ''https://cdn.example/c1/hls/v?Signature=s'', expiresIn = 3600, expiresAt = 4600001\<rparr>, error = None\<rparr>,
        \<lparr>clock_reads = 2, signer_calls = [(''https://cdn.example/c1/hls/v'', 4600000)]\<rparr>)"
    using ok by (simp add: generateUrl_def generateSignedUrl_def getExpiryDate_def bindE_def lift_def
        read_clock_def returnE_def toISOString_def valid_time_def signing_def DEFAULT_EXPIRES_IN_def)
  from C10_generateUrl[of "''c1/hls/v 1''" signing "Some 60" ?st] bad
  have "generateUrl signing ''c1/hls/v 1'' (Some 60) ?st
     = (\<lparr>success = False, data = None, error = Some ''Invalid videoKey format''\<rparr>, ?st)"
    by blast
  with a b show ?thesis by simp
qed

section \<open>The master manifest\<close>

lemma master_variants_eval:
  "master_variants =
     [\<lparr>resolution = ''1920x1080'', bandwidth = Some 5000000\<rparr>,
      \<lparr>resolution = ''1280x720'', bandwidth = Some 2800000\<rparr>,
      \<lparr>resolution = ''854x480'', bandwidth = Some 1400000\<rparr>,
      \<lparr>resolution = ''640x360'', bandwidth = Some 800000\<rparr>]"
  by (simp add: master_variants_def RESOLUTIONS_def digit_char_def parseInt_def is_space_def
      radix_digit_def digit_value_def digits_value_def)

text \<open>
  C8. The manifest \<^verbatim>\<open>processVideo\<close> assembles for the configured variants, line by line:
  four stream entries in the configured order with bandwidths 5000000, 2800000, 1400000
  and 800000; but every entry's URI is \<^verbatim>\<open>{width}x{height}/playlist.m3u8\<close>, while the
  variant's playlist is stored (and probed, and later signed) under
  \<^verbatim>\<open>{name}/playlist.m3u8\<close> beside the master manifest.
\<close>

theorem C8_master_manifest:
  "split_on CHR 0x0A (generateMasterPlaylist master_variants) =
     [''#EXTM3U'', ''#EXT-X-VERSION:3'', ''#EXT-X-INDEPENDENT-SEGMENTS'', [],
      ''#EXT-X-STREAM-INF:BANDWIDTH=5000000,RESOLUTION=1920x1080,CODECS='' @ [CHR 0x22] @ ''avc1.4d401f,mp4a.40.2'' @ [CHR 0x22],
      ''1920x1080/playlist.m3u8'',
      ''#EXT-X-STREAM-INF:BANDWIDTH=2800000,RESOLUTION=1280x720,CODECS='' @ [CHR 0x22] @ ''avc1.4d401f,mp4a.40.2'' @ [CHR 0x22],
      ''1280x720/playlist.m3u8'',
      ''#EXT-X-STREAM-INF:BANDWIDTH=1400000,RESOLUTION=854x480,CODECS='' @ [CHR 0x22] @ ''avc1.4d401f,mp4a.40.2'' @ [CHR 0x22],
      ''854x480/playlist.m3u8'',
      ''#EXT-X-STREAM-INF:BANDWIDTH=800000,RESOLUTION=640x360,CODECS='' @ [CHR 0x22] @ ''avc1.4d401f,mp4a.40.2'' @ [CHR 0x22],
      ''640x360/playlist.m3u8'', []]
   \<and> getMasterPlaylistKey (generateS3Paths ''courses/c1/videos/v.mp4'') = ''c1/hls/v/master.m3u8''
   \<and> map (\<lambda>r. getVariantPlaylistKey (generateS3Paths ''courses/c1/videos/v.mp4'') (name r)) RESOLUTIONS =
       [''c1/hls/v/1080p/playlist.m3u8'', ''c1/hls/v/720p/playlist.m3u8'',
        ''c1/hls/v/480p/playlist.m3u8'', ''c1/hls/v/360p/playlist.m3u8'']"
proof -
  have p: "generateS3Paths ''courses/c1/videos/v.mp4'' = \<lparr>courseId = Some ''c1'', filename = ''v''\<rparr>"
    using accepted_examples(1) by (rule accepted_key_parts)
  show ?thesis
    unfolding p master_variants_eval
    by (simp add: generateMasterPlaylist_def show_number_def show_int_def digit_char_def
        getMasterPlaylistKey_def getVariantPlaylistKey_def js_str_def RESOLUTIONS_def)
qed

section \<open>The dispatcher\<close>










lemma batch_run:
  "run_all (map (\<lambda>m. catchE (processMessage e m) (\<lambda>err. returnE ())) ms) tr
     = (map (\<lambda>m. Inr ()) ms, foldl (\<lambda>t m. snd (processMessage e m t)) tr ms)"
proof (induction ms arbitrary: tr)
  case Nil
  show ?case by simp
next
  case (Cons m ms)
  have "catchE (processMessage e m) (\<lambda>err. returnE ()) tr = (Inr (), snd (processMessage e m tr))"
    by (cases "processMessage e m tr") (auto simp: catchE_def returnE_def split: sum.splits)
  then show ?case using Cons.IH by simp
qed

lemma settle_all_ok: "settle (map (\<lambda>m. Inr ()) ms) = Inr (map (\<lambda>m. ()) ms)"
  by (induction ms) simp_all

lemma returnE_apply: "returnE x s = (Inr x, s)"
  by (simp add: returnE_def)

lemma throwE_apply: "throwE e s = (Inl e, s)"
  by (simp add: throwE_def)

lemma bindE_apply:
  "bindE m f s = (case m s of (Inl e, s') \<Rightarrow> (Inl e, s') | (Inr x, s') \<Rightarrow> f x s')"
  by (simp add: bindE_def)

lemma catchE_apply:
  "catchE m h s = (case m s of (Inl e, s') \<Rightarrow> h e s' | (Inr x, s') \<Rightarrow> (Inr x, s'))"
  by (simp add: catchE_def)

lemma finallyE_apply:
  "finallyE m c s =
     (case m s of (r, s') \<Rightarrow> (case c s' of (Inl e, s'') \<Rightarrow> (Inl e, s'') | (Inr u, s'') \<Rightarrow> (r, s'')))"
  by (simp add: finallyE_def)

lemma batch_join:
  "promise_all (map (\<lambda>m. catchE (processMessage e m) (\<lambda>err. returnE ())) ms) tr
     = (Inr (map (\<lambda>m. ()) ms), foldl (\<lambda>t m. snd (processMessage e m t)) tr ms)"
  by (simp add: promise_all_def batch_run settle_all_ok)


lemma init_iteration_total: "fst (init_iteration e tr) = Inr ()"
  by (simp add: init_iteration_def catchE_apply bindE_apply returnE_apply batch_join
      split: sum.splits option.splits prod.splits)







text \<open>
  C3 (as amended). A message whose body parses to an object with \<^verbatim>\<open>Service\<close> and \<^verbatim>\<open>Event\<close>
  members, being the S3 test event or having no \<^verbatim>\<open>Records\<close>, is not acknowledged:
  \<^verbatim>\<open>processMessage\<close> ends in an error (\<^verbatim>\<open>Test event received\<close> for \<^verbatim>\<open>s3:TestEvent\<close>), and the
  one command it sends is the visibility extension. Nothing is launched or deleted.
\<close>

theorem C3_test_notification:
  assumes "Body msg = Some b" "b \<noteq> []" "JSON_parse e b = Inr (JObj kvs)"
    and "map_of kvs ''Service'' \<noteq> None" "map_of kvs ''Event'' \<noteq> None"
    and "map_of kvs ''Event'' = Some (JStr ''s3:TestEvent'') \<or> map_of kvs ''Records'' = None"
  shows "\<exists>err ok. processMessage e msg tr
            = (Inl err, tr @ [Sent (ChangeMessageVisibility (ReceiptHandle msg) VISIBILITY_TIMEOUT) ok])
          \<and> (map_of kvs ''Event'' = Some (JStr ''s3:TestEvent'') \<longrightarrow> err = Error ''Test event received'')"
  using assms
  by (cases "respond e tr (ChangeMessageVisibility (ReceiptHandle msg) VISIBILITY_TIMEOUT)")
     (auto simp: processMessage_def validateAndParseEvent_def bindS_def lift_def
      catchE_apply bindE_apply returnE_apply throwE_apply send_def)

theorem C3_test_notification_witness:
  "processMessage outage
      \<lparr>MessageId = ''m5'', Body = Some ''test notification: test-event'', ReceiptHandle = ''r5''\<rparr> []
     = (Inl (TypeError ''event.Records is not iterable''), [Sent (ChangeMessageVisibility ''r5'' 900) True])"
proof -
  let ?m = "\<lparr>MessageId = ''m5'', Body = Some ''test notification: test-event'', ReceiptHandle = ''r5''\<rparr>"
  have p: "JSON_parse outage ''test notification: test-event''
      = Inr (JObj [(''Service'', JStr ''Amazon S3''), (''Event'', JStr ''test-event'')])"
    by (simp add: outage_def bodies_def)
  from C3_test_notification[of ?m "''test notification: test-event''" outage _ "[]", OF _ _ p]
  obtain err ok where "processMessage outage ?m [] = (Inl err, [Sent (ChangeMessageVisibility ''r5'' VISIBILITY_TIMEOUT) ok])"
    by auto
  moreover have "processMessage outage ?m [] =
      (Inl (TypeError ''event.Records is not iterable''), [Sent (ChangeMessageVisibility ''r5'' 900) True])"
    by (simp add: processMessage_def outage_def bodies_def validateAndParseEvent_def bindS_def lift_def
      catchE_apply bindE_apply returnE_apply throwE_apply send_def VISIBILITY_TIMEOUT_def)
  ultimately show ?thesis by simp
qed

text \<open>
  The claim as stated fails on the S3 test event: the message is not deleted, an error is
  raised, and the visibility extension is the command sent.
\<close>

theorem C3_test_event_counterexample:
  "processMessage outage
      \<lparr>MessageId = ''m4'', Body = Some ''test notification: s3:TestEvent'', ReceiptHandle = ''r4''\<rparr> []
     = (Inl (Error ''Test event received''), [Sent (ChangeMessageVisibility ''r4'' 900) True])
   \<and> \<not> issued (DeleteMessage ''r4'')
        (snd (processMessage outage
           \<lparr>MessageId = ''m4'', Body = Some ''test notification: s3:TestEvent'', ReceiptHandle = ''r4''\<rparr> []))"
  by (simp add: processMessage_def outage_def bodies_def validateAndParseEvent_def bindS_def lift_def
      catchE_apply bindE_apply returnE_apply throwE_apply send_def VISIBILITY_TIMEOUT_def issued_def)

section \<open>Rules for runs\<close>





lemma post_lift: "reflp R \<Longrightarrow> post (lift x) R"
  by (auto simp: post_def lift_def reflp_def)









subsection \<open>Histories\<close>




lemma emits_new_events: "emits P w w' \<Longrightarrow> trace w' = trace w @ new_events w w' \<and> (\<forall>ev \<in> set (new_events w w'). P ev)"
  by (auto simp: emits_def new_events_def)




subsection \<open>The external calls\<close>
























subsection \<open>The operations of the pipeline\<close>















subsection \<open>The stages of a run\<close>

lemma catchE_rethrow: "catchE m (\<lambda>err. throwE err) = m"
  by (auto simp: catchE_def throwE_def fun_eq_iff split: prod.splits sum.splits)

lemma bindE_assoc: "bindE (bindE m f) g = bindE m (\<lambda>x. bindE (f x) g)"
  by (auto simp: bindE_def fun_eq_iff split: prod.splits sum.splits)

lemma bindE_returnE: "bindE (returnE x) f = f x"
  by (simp add: bindE_def returnE_def)

lemma processVideo_stages:
  "processVideo e key =
     bindE (fs_mkdtemp e CONFIG_TEMP_DIR_PREFIX) (\<lambda>workDir.
       finallyE
         (bindE (prepare e key workDir) (\<lambda>p.
          bindE (canary e p workDir) (\<lambda>u.
          bindE (fan_out e (generateS3Paths key) p workDir) (\<lambda>done.
          publish_master e (generateS3Paths key) workDir))))
         (cleanup e workDir))"
  by (simp add: processVideo_def prepare_def canary_def fan_out_def publish_master_def cleanup_def
      Let_def catchE_rethrow bindE_assoc bindE_returnE)



subsection \<open>What a history shows\<close>








lemma grows_refl: "grows w w"
  by (simp add: grows_def)


lemma grows_trace: "grows w w' \<Longrightarrow> trace w' = trace w @ new_events w w'"
  by (auto simp: grows_def new_events_def)













subsection \<open>Encoder runs of a whole job\<close>



subsection \<open>Uploads of a whole job\<close>







subsection \<open>A run against a populated destination\<close>







lemmas run_simps =
  bindE_apply catchE_apply finallyE_apply returnE_apply throwE_apply
  external_def emit_def set_timeout_def path_resolve_def
  fs_mkdtemp_def fs_mkdir_def fs_writeStream_def fs_writeFile_def fs_stat_def fs_readdir_def fs_rm_def
  s3_getObject_def s3_headObject_def s3_putObject_def
  checkFileExists_def downloadFromS3_def transcodeToHLS_def uploadToS3_def uploadHLSFiles_def
  processVariant_def withRetry_def CONFIG_MAX_RETRIES_def CONFIG_RETRY_DELAY_def CONFIG_TEMP_DIR_PREFIX_def
  CONFIG_UPLOAD_CONCURRENCY_def
  prepare_def canary_def fan_out_def publish_master_def cleanup_def promise_all_def
  path_basename_def RESOLUTIONS_def under_def children_def ends_with_def Let_def



lemma empty_run:
  "processVideo studio ''courses/c1/videos/v.mp4'' empty_upload
     = (Inl (Error ''Downloaded file is empty''),
        \<lparr>files = [(''/app/original-v.mp4'', [])], dirs = [], s3 = s3 empty_upload,
         trace = [Mkdtemp ''hls-'',
           GetObject ''uploads'' ''courses/c1/videos/v.mp4'', WriteStream ''original-v.mp4'', Stat ''original-v.mp4'',
           Timeout 1000,
           GetObject ''uploads'' ''courses/c1/videos/v.mp4'', WriteStream ''original-v.mp4'', Stat ''original-v.mp4'',
           Timeout 2000,
           GetObject ''uploads'' ''courses/c1/videos/v.mp4'', WriteStream ''original-v.mp4'', Stat ''original-v.mp4'',
           Rm ''hls-Ab3dE9'']\<rparr>)"
  by (simp add: processVideo_stages run_simps studio_def empty_upload_def)

lemma studio_run_fresh:
  "fst (processVideo studio ''courses/c1/videos/v.mp4'' fresh) = Inr True"
  "files (snd (processVideo studio ''courses/c1/videos/v.mp4'' fresh)) = [(''/app/original-v.mp4'', ''VIDEO'')]"
  "trace (snd (processVideo studio ''courses/c1/videos/v.mp4'' fresh)) =
     [Mkdtemp ''hls-'', GetObject ''uploads'' ''courses/c1/videos/v.mp4'',
      WriteStream ''original-v.mp4'', Stat ''original-v.mp4'',
      Mkdir ''hls-Ab3dE9/1080p'', Mkdir ''hls-Ab3dE9/720p'', Mkdir ''hls-Ab3dE9/480p'', Mkdir ''hls-Ab3dE9/360p'',
      Ffprobe ''/app/original-v.mp4'', Ffmpeg ''/app/original-v.mp4'' ''hls-Ab3dE9'' ''360p'',
      HeadObject ''streams'' ''c1/hls/v/1080p/playlist.m3u8'',
      Ffprobe ''/app/original-v.mp4'', Ffmpeg ''/app/original-v.mp4'' ''hls-Ab3dE9'' ''1080p'',
      Readdir ''hls-Ab3dE9/1080p'',
      PutObject ''streams'' ''c1/hls/v/1080p/playlist.m3u8'' ''application/x-mpegURL'',
      PutObject ''streams'' ''c1/hls/v/1080p/segment_000.ts'' ''video/MP2T'',
      HeadObject ''streams'' ''c1/hls/v/720p/playlist.m3u8'',
      Ffprobe ''/app/original-v.mp4'', Ffmpeg ''/app/original-v.mp4'' ''hls-Ab3dE9'' ''720p'',
      Readdir ''hls-Ab3dE9/720p'',
      PutObject ''streams'' ''c1/hls/v/720p/playlist.m3u8'' ''application/x-mpegURL'',
      PutObject ''streams'' ''c1/hls/v/720p/segment_000.ts'' ''video/MP2T'',
      HeadObject ''streams'' ''c1/hls/v/480p/playlist.m3u8'',
      Ffprobe ''/app/original-v.mp4'', Ffmpeg ''/app/original-v.mp4'' ''hls-Ab3dE9'' ''480p'',
      Readdir ''hls-Ab3dE9/480p'',
      PutObject ''streams'' ''c1/hls/v/480p/playlist.m3u8'' ''application/x-mpegURL'',
      PutObject ''streams'' ''c1/hls/v/480p/segment_000.ts'' ''video/MP2T'',
      WriteFile ''hls-Ab3dE9/master.m3u8'',
      PutObject ''streams'' ''c1/hls/v/master.m3u8'' ''application/x-mpegURL'',
      Rm ''hls-Ab3dE9'']"
  by (simp_all add: processVideo_stages run_simps studio_def fresh_def
      accepted_key_parts[OF accepted_examples(1)] getVariantPlaylistKey_def getHLSBasePath_def
      getMasterPlaylistKey_def js_str_def)

section \<open>The transcoder's jobs\<close>









text \<open>
  C4. A job whose download yields an empty file on each of the three attempts ends in the
  error \<^verbatim>\<open>Downloaded file is empty\<close>. The \<^verbatim>\<open>finally\<close> block has removed the workspace
  directory, but the downloaded file \<^verbatim>\<open>original-v.mp4\<close>, written in the working directory
  of the process and not in the workspace, is still on the disk, which held no file
  before the job. The same file is left behind by a job that succeeds.
\<close>

theorem C4_download_failure_leaves_source_file:
  "files empty_upload = [] \<and> dirs empty_upload = []
   \<and> fst (processVideo studio ''courses/c1/videos/v.mp4'' empty_upload) = Inl (Error ''Downloaded file is empty'')
   \<and> trace (snd (processVideo studio ''courses/c1/videos/v.mp4'' empty_upload))
       = [Mkdtemp ''hls-'',
          GetObject ''uploads'' ''courses/c1/videos/v.mp4'', WriteStream ''original-v.mp4'', Stat ''original-v.mp4'',
          Timeout 1000,
          GetObject ''uploads'' ''courses/c1/videos/v.mp4'', WriteStream ''original-v.mp4'', Stat ''original-v.mp4'',
          Timeout 2000,
          GetObject ''uploads'' ''courses/c1/videos/v.mp4'', WriteStream ''original-v.mp4'', Stat ''original-v.mp4'',
          Rm ''hls-Ab3dE9'']
   \<and> dirs (snd (processVideo studio ''courses/c1/videos/v.mp4'' empty_upload)) = []
   \<and> files (snd (processVideo studio ''courses/c1/videos/v.mp4'' empty_upload)) = [(''/app/original-v.mp4'', [])]
   \<and> fst (processVideo studio ''courses/c1/videos/v.mp4'' fresh) = Inr True
   \<and> files (snd (processVideo studio ''courses/c1/videos/v.mp4'' fresh)) = [(''/app/original-v.mp4'', ''VIDEO'')]"
  by (simp add: empty_run studio_run_fresh(1,2)) (simp add: empty_upload_def)

end
